theory Spec2Isabelle
  imports Main "HOL-Library.Sublist" "HOL-Library.Code_Target_Nat"
begin

section \<open>Python strings\<close>

text \<open>
  A Python \<open>str\<close> is a sequence of Unicode code points, and \<open>len\<close>, slicing, the regular
  expressions and the character classes of the source all count code points. A string is
  therefore modelled as the list of its code points, each a natural number; \<open>ustr\<close> turns an
  ASCII literal into such a list.

  \<open>str.isspace\<close>, \<open>str.strip\<close>, the pattern \<open>\s\<close> and \<open>str.splitlines\<close> are modelled
  on every code point. \<open>str.lower\<close> is modelled exactly on the code points below 256 and
  as the identity above: that is exact on every caseless character (digits, punctuation,
  Hebrew, emoji), and the model does not describe inputs that hold cased letters beyond
  Latin-1 (Python lowers the Kelvin sign, code point 8490, to \<open>k\<close>; here it stays).
  The theorems below hold for the lower-casing as it is defined here, and every
  computed example is ASCII, where the two agree.
\<close>

type_synonym ustring = "nat list"

definition ustr :: "string \<Rightarrow> ustring" where
  "ustr s = map of_char s"

definition py_isspace :: "nat \<Rightarrow> bool" where
  "py_isspace c \<longleftrightarrow>
     (9 \<le> c \<and> c \<le> 13) \<or> (28 \<le> c \<and> c \<le> 32) \<or> c = 133 \<or> c = 160 \<or> c = 5760 \<or>
     (8192 \<le> c \<and> c \<le> 8202) \<or> c = 8232 \<or> c = 8233 \<or> c = 8239 \<or> c = 8287 \<or> c = 12288"

definition py_strip :: "ustring \<Rightarrow> ustring" where
  "py_strip s = rev (dropWhile py_isspace (rev (dropWhile py_isspace s)))"

definition lower_cp :: "nat \<Rightarrow> nat" where
  "lower_cp c =
     (if (65 \<le> c \<and> c \<le> 90) \<or> (192 \<le> c \<and> c \<le> 222 \<and> c \<noteq> 215) then c + 32 else c)"

definition py_lower :: "ustring \<Rightarrow> ustring" where
  "py_lower s = map lower_cp s"

text \<open>\<open>needle in hay\<close> on strings: \<open>needle\<close> occurs in \<open>hay\<close> as a contiguous run.\<close>

fun py_in :: "ustring \<Rightarrow> ustring \<Rightarrow> bool" where
  "py_in needle [] = (needle = [])"
| "py_in needle (c # cs) = (prefix needle (c # cs) \<or> py_in needle cs)"

definition startswith :: "ustring \<Rightarrow> ustring \<Rightarrow> bool" where
  "startswith s p = prefix p s"

text \<open>\<open>s.split(sep)\<close> for a separator of one code point: always at least one piece.\<close>

fun py_split :: "nat \<Rightarrow> ustring \<Rightarrow> ustring list" where
  "py_split sep [] = [[]]"
| "py_split sep (c # cs) =
     (if c = sep then [] # py_split sep cs
      else (case py_split sep cs of [] \<Rightarrow> [[c]] | p # ps \<Rightarrow> (c # p) # ps))"

text \<open>
  \<open>s.split(":", 1)[1]\<close>: what follows the first colon. The index 1 exists exactly when
  \<open>s\<close> holds a colon; both uses in the source are guarded by a \<open>startswith\<close> test that
  ensures it (lemmas \<open>startswith_Category_colon\<close>, \<open>startswith_Product_colon\<close> and
  \<open>keywords_prefix_colon\<close> below).
\<close>

definition after_colon :: "ustring \<Rightarrow> ustring" where
  "after_colon s = drop 1 (dropWhile (\<lambda>c. c \<noteq> 58) s)"

definition py_islinebreak :: "nat \<Rightarrow> bool" where
  "py_islinebreak c \<longleftrightarrow>
     (10 \<le> c \<and> c \<le> 13) \<or> (28 \<le> c \<and> c \<le> 30) \<or> c = 133 \<or> c = 8232 \<or> c = 8233"

text \<open>
  \<open>str.splitlines()\<close>: a line ends at every line break, \<open>\r\n\<close> counting as one, and
  a last line without a break is kept only when it is not empty.
\<close>

fun splitlines_from :: "ustring \<Rightarrow> ustring \<Rightarrow> ustring list" where
  "splitlines_from cur [] = (if cur = [] then [] else [cur])"
| "splitlines_from cur [c] = (if py_islinebreak c then [cur] else [cur @ [c]])"
| "splitlines_from cur (c # d # ds) =
     (if c = 13 \<and> d = 10 then cur # splitlines_from [] ds
      else if py_islinebreak c then cur # splitlines_from [] (d # ds)
      else splitlines_from (cur @ [c]) (d # ds))"

definition py_splitlines :: "ustring \<Rightarrow> ustring list" where
  "py_splitlines s = splitlines_from [] s"

text \<open>\<open>sep.join(xs)\<close>.\<close>

fun py_join :: "ustring \<Rightarrow> ustring list \<Rightarrow> ustring" where
  "py_join sep [] = []"
| "py_join sep [x] = x"
| "py_join sep (x # y # ys) = x @ sep @ py_join sep (y # ys)"

text \<open>\<open>re.findall(r"[a-z0-9]+", s)\<close>: the maximal runs of lower-case ASCII letters and digits.\<close>

definition is_lc_alnum :: "nat \<Rightarrow> bool" where
  "is_lc_alnum c \<longleftrightarrow> (97 \<le> c \<and> c \<le> 122) \<or> (48 \<le> c \<and> c \<le> 57)"

fun findall_from :: "ustring \<Rightarrow> ustring \<Rightarrow> ustring list" where
  "findall_from cur [] = (if cur = [] then [] else [cur])"
| "findall_from cur (c # cs) =
     (if is_lc_alnum c then findall_from (cur @ [c]) cs
      else (if cur = [] then [] else [cur]) @ findall_from [] cs)"

definition findall_alnum :: "ustring \<Rightarrow> ustring list" where
  "findall_alnum s = findall_from [] s"

text \<open>
  \<open>sorted(xs, key=f, reverse=True)\<close>. Python's sort is stable, and with \<open>reverse=True\<close>
  it keeps the original order of elements with equal keys: the list is reversed, sorted
  stably in ascending order and reversed again.
\<close>

definition py_sorted_reverse :: "('a \<Rightarrow> nat) \<Rightarrow> 'a list \<Rightarrow> 'a list" where
  "py_sorted_reverse f xs = rev (sort_key f (rev xs))"

section \<open>Mode detection (agent.py)\<close>

datatype mode = MODE_FULL | MODE_HEADLINE | MODE_KEYWORDS5

definition detect_mode :: "ustring \<Rightarrow> mode" where
  "detect_mode prompt =
     (let p = py_lower prompt in
      if py_in (ustr ''task:'') p then
        (if (py_in (ustr ''write only'') p \<and> py_in (ustr ''headline'') p)
            \<or> py_in (ustr ''headline only'') p then MODE_HEADLINE
         else if py_in (ustr ''5 keywords'') p \<or> py_in (ustr ''five keywords'') p
            \<or> py_in (ustr ''keywords that must be included'') p then MODE_KEYWORDS5
         else MODE_FULL)
      else if py_in (ustr ''headline only'') p
            \<or> (py_in (ustr ''write only'') p \<and> py_in (ustr ''headline'') p) then MODE_HEADLINE
      else if py_in (ustr ''5 keywords'') p \<or> py_in (ustr ''five keywords'') p then MODE_KEYWORDS5
      else MODE_FULL)"

section \<open>Output format validation (agent.py)\<close>

text \<open>
  The two compiled patterns are used with \<open>fullmatch\<close> only, so a text is accepted exactly
  when the whole of it belongs to the language of the pattern (the anchors \<open>^\<close> and \<open>$\<close>
  add nothing). The patterns are built from literals, single characters of a class, and
  bounded or unbounded runs of a class; \<open>rmatch r s\<close> lists what can remain of \<open>s\<close> after
  \<open>r\<close> has matched a prefix of it.
\<close>

datatype regex =
    Eps
  | Lit ustring
  | One "nat \<Rightarrow> bool"
  | Many1 "nat \<Rightarrow> bool"
  | Between nat nat "nat \<Rightarrow> bool"
  | Seq regex regex

fun tails_while :: "(nat \<Rightarrow> bool) \<Rightarrow> ustring \<Rightarrow> ustring list" where
  "tails_while P [] = []"
| "tails_while P (c # cs) = (if P c then cs # tails_while P cs else [])"

fun rmatch :: "regex \<Rightarrow> ustring \<Rightarrow> ustring list" where
  "rmatch Eps s = [s]"
| "rmatch (Lit l) s = (if prefix l s then [drop (length l) s] else [])"
| "rmatch (One P) s = (case s of [] \<Rightarrow> [] | c # cs \<Rightarrow> if P c then [cs] else [])"
| "rmatch (Many1 P) s = tails_while P s"
| "rmatch (Between lo hi P) s = take (Suc hi - lo) (drop lo (s # tails_while P s))"
| "rmatch (Seq a b) s = concat (map (rmatch b) (rmatch a s))"

definition fullmatch :: "regex \<Rightarrow> ustring \<Rightarrow> bool" where
  "fullmatch r s \<longleftrightarrow> [] \<in> set (rmatch r s)"

definition seqs :: "regex list \<Rightarrow> regex" where
  "seqs rs = foldr Seq rs Eps"

definition times :: "nat \<Rightarrow> regex \<Rightarrow> regex" where
  "times n r = seqs (replicate n r)"

definition not_newline :: "nat \<Rightarrow> bool" where
  "not_newline c \<longleftrightarrow> c \<noteq> 10"

definition FULL_FORMAT_REGEX :: regex where
  "FULL_FORMAT_REGEX = seqs
     [Lit (ustr ''Headline:''), One py_isspace, Many1 not_newline, Lit [10],
      Lit (ustr ''Bullets:'' @ [10]),
      times 5 (seqs [Lit (ustr ''-''), One py_isspace, Many1 not_newline, Lit [10]]),
      Lit (ustr ''Short description:''), One py_isspace, Many1 not_newline, Lit [10],
      Lit (ustr ''Keywords:''), One py_isspace, Many1 not_newline, Lit [10],
      Lit (ustr ''Publishing tips:''), One py_isspace, Many1 not_newline]"

definition HEADLINE_ONLY_REGEX :: regex where
  "HEADLINE_ONLY_REGEX = seqs [Lit (ustr ''Headline:''), One py_isspace, Between 3 200 not_newline]"

definition validate_keywords5_line :: "ustring \<Rightarrow> bool" where
  "validate_keywords5_line text =
     (let t = py_strip text in
      if \<not> startswith (py_lower t) (ustr ''keywords:'') then False
      else
        let rest = py_strip (after_colon t) in
        if rest = [] then False
        else
          let parts = filter (\<lambda>p. p \<noteq> []) (map py_strip (py_split 44 rest)) in
          if length parts \<noteq> 5 then False
          else if list_ex (\<lambda>p. length p < 2) parts then False
          else True)"

text \<open>
  \<open>_is_valid_format\<close> is also called on the repair call's text, which may be \<open>None\<close>:
  \<open>(text or "")\<close> reads it as the empty string.
\<close>

definition or_empty :: "ustring option \<Rightarrow> ustring" where
  "or_empty x = (case x of None \<Rightarrow> [] | Some s \<Rightarrow> s)"

definition is_valid_format :: "ustring option \<Rightarrow> mode \<Rightarrow> bool" where
  "is_valid_format text m =
     (let t = py_strip (or_empty text) in
      if t = [] then False
      else if m = MODE_HEADLINE then fullmatch HEADLINE_ONLY_REGEX t
      else if m = MODE_KEYWORDS5 then validate_keywords5_line t
      else fullmatch FULL_FORMAT_REGEX t)"

section \<open>Vocabularies and limits (agent.py)\<close>

definition STOPWORDS :: "ustring list" where
  "STOPWORDS = map ustr
     [''a'', ''an'', ''the'', ''and'', ''or'', ''for'', ''to'', ''of'', ''in'', ''on'', ''with'',
      ''without'', ''by'', ''include'', ''includes'', ''including'', ''style'', ''amazon'', ''ad'',
      ''write'', ''bullet'', ''bullets'', ''cta'', ''benefits'', ''your'', ''now'', ''next'', ''new'',
      ''please'', ''make'', ''create'', ''this'', ''that'', ''these'', ''those'', ''from'', ''into'',
      ''over'', ''under'', ''best'', ''top'', ''high'', ''quality'', ''premium'', ''great'']"

definition INTENT_HINTS :: "ustring list" where
  "INTENT_HINTS = map ustr
     [''write'', ''generate'', ''create'', ''headline'', ''keywords'', ''ad'', ''listing'', ''product'']"

definition PRODUCT_HINTS :: "ustring list" where
  "PRODUCT_HINTS = map ustr
     [''bottle'', ''shoe'', ''watch'', ''backpack'', ''headphones'', ''laptop'', ''charger'', ''camera'',
      ''mug'', ''cup'', ''speaker'', ''mouse'', ''keyboard'', ''skincare'', ''perfume'', ''dress'']"

definition MIN_PROMPT_CHARS_FOR_AGENT :: nat where
  "MIN_PROMPT_CHARS_FOR_AGENT = 12"

definition MIN_TOKENS_FOR_AGENT :: nat where
  "MIN_TOKENS_FOR_AGENT = 3"

section \<open>Query rewriting (agent.py)\<close>

text \<open>
  The loop over the lines keeps the value of the last line that starts with \<open>Category:\<close>
  and of the last one that starts with \<open>Product:\<close>.
\<close>

definition rewrite_step :: "ustring \<times> ustring \<Rightarrow> ustring \<Rightarrow> ustring \<times> ustring" where
  "rewrite_step parts line =
     (if startswith line (ustr ''Category:'') then (py_strip (after_colon line), snd parts)
      else if startswith line (ustr ''Product:'') then (fst parts, py_strip (after_colon line))
      else parts)"

definition rewrite_parts :: "ustring \<Rightarrow> ustring \<times> ustring" where
  "rewrite_parts prompt = foldl rewrite_step ([], []) (py_splitlines prompt)"

definition query_tokens :: "ustring \<Rightarrow> ustring list" where
  "query_tokens text =
     filter (\<lambda>t. length t \<ge> 3 \<and> t \<notin> set STOPWORDS) (findall_alnum text)"

definition rewrite_query :: "ustring \<Rightarrow> ustring" where
  "rewrite_query prompt =
     (let category_part = fst (rewrite_parts prompt);
          product_part = snd (rewrite_parts prompt);
          text = (if category_part \<noteq> [] \<and> product_part \<noteq> []
                  then py_lower (ustr ''category '' @ category_part @ ustr '' '' @ product_part)
                  else py_lower prompt);
          toks = query_tokens text;
          q = py_strip (py_join (ustr '' '') (take 12 toks))
      in if q \<noteq> [] then q else prompt)"

section \<open>Context condensation (agent.py)\<close>

text \<open>Python slicing \<open>xs[:n]\<close>; a negative \<open>n\<close> counts from the end.\<close>

definition py_take :: "int \<Rightarrow> 'a list \<Rightarrow> 'a list" where
  "py_take n xs = (if 0 \<le> n then take (nat n) xs else take (length xs - nat (- n)) xs)"

text \<open>The candidate lines of a context block: the text after \<open>"- "\<close>, stripped, when not empty.\<close>

definition candidate_of :: "ustring \<Rightarrow> ustring list" where
  "candidate_of ln =
     (let ln' = py_strip ln in
      if startswith ln' (ustr ''- '') then
        (let s = py_strip (drop 2 ln') in if s \<noteq> [] then [s] else [])
      else [])"

definition ctx_candidates :: "ustring \<Rightarrow> ustring list" where
  "ctx_candidates ctx = concat (map candidate_of (py_splitlines ctx))"

text \<open>
  The significant tokens of the prompt form a Python set; the score only counts its
  members, so the set is kept as a list without repetitions.
\<close>

definition significant_tokens :: "ustring \<Rightarrow> ustring list" where
  "significant_tokens prompt = remdups (query_tokens (py_lower prompt))"

definition score :: "ustring list \<Rightarrow> ustring \<Rightarrow> nat" where
  "score q s = length (filter (\<lambda>tok. py_in tok (py_lower s)) q)"

text \<open>
  The ranking loop: a line whose lower-cased, stripped text is empty or was seen before
  is skipped, any other is appended, and the loop ends as soon as \<open>max_lines\<close> lines
  are kept (after the first kept line when \<open>max_lines\<close> is below 1).
\<close>

fun rank_loop :: "int \<Rightarrow> ustring list \<Rightarrow> ustring list \<Rightarrow> ustring list \<Rightarrow> ustring list" where
  "rank_loop max_lines seen ranked [] = ranked"
| "rank_loop max_lines seen ranked (s # rest) =
     (let k = py_strip (py_lower s) in
      if k = [] \<or> k \<in> set seen then rank_loop max_lines seen ranked rest
      else if max_lines \<le> int (length (ranked @ [s])) then ranked @ [s]
      else rank_loop max_lines (k # seen) (ranked @ [s]) rest)"

definition ranked_lines :: "ustring \<Rightarrow> ustring \<Rightarrow> int \<Rightarrow> ustring list" where
  "ranked_lines prompt ctx max_lines =
     rank_loop max_lines [] []
       (py_sorted_reverse (score (significant_tokens prompt)) (ctx_candidates ctx))"

definition condense_ctx :: "ustring \<Rightarrow> ustring \<Rightarrow> int \<Rightarrow> ustring" where
  "condense_ctx prompt ctx max_lines =
     (if ctx = [] then []
      else if ctx_candidates ctx = [] then py_take 1200 ctx
      else py_join [10] (map (\<lambda>s. ustr ''- '' @ s) (ranked_lines prompt ctx max_lines)))"

section \<open>Allowed terms (agent.py)\<close>

definition is_ascii_alpha :: "nat \<Rightarrow> bool" where
  "is_ascii_alpha c \<longleftrightarrow> (65 \<le> c \<and> c \<le> 90) \<or> (97 \<le> c \<and> c \<le> 122)"

definition is_alpha_hyphen :: "nat \<Rightarrow> bool" where
  "is_alpha_hyphen c \<longleftrightarrow> is_ascii_alpha c \<or> c = 45"

text \<open>
  \<open>re.findall(r"[a-zA-Z][a-zA-Z\-]{2,}", s)\<close>: scanning from the left, a letter followed by
  a run of at least two letters or hyphens is a match (the whole run, the pattern being
  greedy) and the scan goes on behind it; anything else is skipped by one character.
\<close>

function findall_terms :: "ustring \<Rightarrow> ustring list" where
  "findall_terms [] = []"
| "findall_terms (c # cs) =
     (if is_ascii_alpha c \<and> 2 \<le> length (takeWhile is_alpha_hyphen cs)
      then (c # takeWhile is_alpha_hyphen cs) # findall_terms (dropWhile is_alpha_hyphen cs)
      else findall_terms cs)"
  by pat_completeness auto
termination
  by (relation "measure length") (auto simp: length_dropWhile_le less_Suc_eq_le)

text \<open>
  \<open>Counter(toks).most_common(n)\<close>: the distinct tokens in the order they were first seen,
  with their counts, sorted by descending count (stably), the first \<open>n\<close> of them.
\<close>

fun first_seen :: "'a list \<Rightarrow> 'a list" where
  "first_seen [] = []"
| "first_seen (x # xs) = x # filter (\<lambda>y. y \<noteq> x) (first_seen xs)"

definition most_common :: "nat \<Rightarrow> ustring list \<Rightarrow> (ustring \<times> nat) list" where
  "most_common n toks =
     take n (py_sorted_reverse snd (map (\<lambda>w. (w, count_list toks w)) (first_seen toks)))"

definition extract_allowed_terms :: "ustring \<Rightarrow> int \<Rightarrow> ustring list" where
  "extract_allowed_terms condensed_ctx max_terms =
     (if condensed_ctx = [] then []
      else
        let toks = filter (\<lambda>t. t \<notin> set STOPWORDS) (findall_terms (py_lower condensed_ctx));
            common = map fst (filter (\<lambda>wc. 2 \<le> snd wc) (most_common 80 toks))
        in py_take max_terms common)"

section \<open>Clarification gate (agent.py)\<close>

definition should_clarify :: "ustring \<Rightarrow> bool \<times> ustring" where
  "should_clarify prompt =
     (let p = py_strip prompt in
      if p = [] then (True, ustr ''empty'')
      else if length p < MIN_PROMPT_CHARS_FOR_AGENT then (True, ustr ''too_short'')
      else
        let p_l = py_lower p;
            toks = findall_alnum p_l;
            meaningful = filter (\<lambda>t. 2 \<le> length t) toks;
            has_intent = list_ex (\<lambda>h. py_in h p_l) INTENT_HINTS;
            has_product = (list_ex (\<lambda>h. py_in h p_l) PRODUCT_HINTS \<or> py_in (ustr ''product:'') p_l)
        in
          if has_intent \<and> \<not> has_product then (True, ustr ''missing_product'')
          else if length meaningful < MIN_TOKENS_FOR_AGENT then
            (if has_product then (False, []) else (True, ustr ''too_few_tokens''))
          else if \<not> has_intent \<and> \<not> has_product then (True, ustr ''no_intent_or_product'')
          else (False, []))"

definition clarification_response :: "ustring \<Rightarrow> ustring" where
  "clarification_response reason =
     (if reason = ustr ''missing_product'' then
        ustr ''Sure '' @ [8212] @ ustr '' what product should I write the ad copy for?'' @
        [10, 10] @ ustr ''Try:'' @ [10] @ ustr ''Product: ...'' @ [10] @
        ustr ''Category: ...'' @ [10] @ ustr ''Constraints: ... (optional)'' @ [10] @
        ustr ''Task: Full ad / headline only / 5 keywords'' @ [10]
      else
        ustr ''Hi! Please describe the product and what you want:'' @ [10, 10] @
        ustr ''Product: ...'' @ [10] @ ustr ''Category: ...'' @ [10] @
        ustr ''Constraints: ... (optional)'' @ [10] @
        ustr ''Task: Full ad / headline only / 5 keywords'' @ [10])"

section \<open>Prompt assembly (agent.py)\<close>

definition build_messages :: "ustring \<Rightarrow> ustring \<Rightarrow> ustring list \<Rightarrow> mode \<Rightarrow> ustring \<times> ustring" where
  "build_messages prompt condensed_ctx allowed_terms m =
     (let system_msg =
            ustr ''You are Ad-Wise, an expert performance copywriter. '' @
            ustr ''Write high-converting ad copy using the provided inspiration examples. '' @
            ustr ''Be concise, avoid fluff, and follow user constraints strictly.'';
          allowed_block =
            (if allowed_terms \<noteq> [] then
               ustr ''ALLOWED CLAIM TERMS (use only if they appear in inspiration or user request): '' @
               py_join (ustr '', '') allowed_terms @ [10, 10]
             else []);
          output_format =
            (if m = MODE_HEADLINE then
               ustr ''OUTPUT FORMAT (MUST be EXACT '' @ [8212] @ ustr '' return ONLY one line):'' @ [10] @
               ustr ''Headline: ...'' @ [10, 10] @
               ustr ''CRITICAL RULES:'' @ [10] @
               ustr ''- Output ONLY the single line starting with '' @ [39] @ ustr ''Headline: '' @ [39, 10] @
               ustr ''- Do NOT add any other section'' @ [10] @
               ustr ''- Keep the entire line <= 160 characters'' @ [10] @
               ustr ''- Only use features from INSPIRATION EXAMPLES or USER REQUEST'' @ [10]
             else if m = MODE_KEYWORDS5 then
               ustr ''OUTPUT FORMAT (MUST be EXACT '' @ [8212] @ ustr '' return ONLY one line):'' @ [10] @
               ustr ''Keywords: k1, k2, k3, k4, k5'' @ [10, 10] @
               ustr ''CRITICAL RULES:'' @ [10] @
               ustr ''- Output ONLY the single line starting with '' @ [39] @ ustr ''Keywords: '' @ [39, 10] @
               ustr ''- Return EXACTLY 5 comma-separated keywords/phrases'' @ [10] @
               ustr ''- These MUST be suitable to include in the headline'' @ [10] @
               ustr ''- Do NOT add Headline, Bullets, Short description, or any other section'' @ [10] @
               ustr ''- Only use terms relevant to the product and category'' @ [10]
             else
               ustr ''OUTPUT FORMAT (MUST be EXACT, no extra text):'' @ [10] @
               ustr ''Headline: ...'' @ [10] @
               ustr ''Bullets:'' @ [10] @
               ustr ''- ...'' @ [10] @ ustr ''- ...'' @ [10] @ ustr ''- ...'' @ [10] @
               ustr ''- ...'' @ [10] @ ustr ''- ...'' @ [10] @
               ustr ''Short description: ...'' @ [10] @
               ustr ''Keywords: k1, k2, ...'' @ [10] @
               ustr ''Publishing tips: ...'' @ [10, 10] @
               ustr ''RULES:'' @ [10] @
               ustr ''1) Only mention features that appear in INSPIRATION EXAMPLES '' @
               ustr ''or explicitly in the USER REQUEST.'' @ [10] @
               ustr ''2) Do NOT invent numeric specs unless user provides them.'' @ [10] @
               ustr ''3) Keep Headline <= 160 characters.'' @ [10] @
               ustr ''4) Exactly 5 bullet lines, each starting with '' @ [39] @ ustr ''- '' @ [39] @
               ustr ''.'' @ [10] @
               ustr ''5) Keywords: 8-15 comma-separated keywords; include long-tail phrases.'' @ [10] @
               ustr ''6) Publishing tips: 2-3 short actionable tips, no emojis.'' @ [10] @
               ustr ''7) Keep each section on a single line.'' @ [10]);
          user_msg =
            ustr ''USER REQUEST:'' @ [10] @ prompt @ [10, 10] @
            allowed_block @
            ustr ''INSPIRATION EXAMPLES (most relevant excerpts):'' @ [10] @
            (if condensed_ctx \<noteq> [] then condensed_ctx else ustr ''(none)'') @ [10, 10] @
            output_format
      in (system_msg, user_msg))"

definition formatter_system_msg :: ustring where
  "formatter_system_msg =
     ustr ''You are a formatter. Rewrite the draft into the exact required format. '' @
     ustr ''Do NOT add new facts. Return ONLY the formatted output.''"

definition repair_messages :: "ustring \<Rightarrow> ustring \<Rightarrow> mode \<Rightarrow> ustring \<times> ustring" where
  "repair_messages product_prompt draft m =
     (let system_msg = formatter_system_msg;
          required =
            (if m = MODE_HEADLINE then ustr ''Headline: ... (single line only)''
             else if m = MODE_KEYWORDS5 then
               ustr ''Keywords: k1, k2, k3, k4, k5 (single line only, exactly 5)''
             else
               ustr ''Headline: ...'' @ [10] @
               ustr ''Bullets:'' @ [10] @
               ustr ''- ...'' @ [10] @ ustr ''- ...'' @ [10] @ ustr ''- ...'' @ [10] @
               ustr ''- ...'' @ [10] @ ustr ''- ...'' @ [10] @
               ustr ''Short description: ...'' @ [10] @
               ustr ''Keywords: ...'' @ [10] @
               ustr ''Publishing tips: ...'');
          user_msg =
            ustr ''Required format:'' @ [10] @ required @ [10, 10] @
            ustr ''User request:'' @ [10] @ product_prompt @ [10, 10] @
            ustr ''Draft to fix:'' @ [10] @ draft
      in (system_msg, user_msg))"

section \<open>The pipeline (agent.py, run_agent)\<close>

text \<open>
  The retriever and the text generator are the two collaborators of the pipeline that
  reach outside the process. Each is a function of the state of the world \<open>'w\<close> that
  returns either the exception it raised or its result, with the next state of the
  world; nothing else is assumed of them. The pipeline is run with the record of these
  two functions and a state of the world, and returns its result with the state of the
  world its calls have left behind.
\<close>

datatype exn = Exn (exn_type: ustring) (exn_msg: ustring)

record retrieval_trace =
  provider :: ustring
  top_k :: int
  namespace :: ustring
  index_name :: ustring
  matches :: int
  categories :: "ustring list"
  ads_used :: int
  trace_note :: ustring

record llm_meta =
  used_url :: ustring
  model :: ustring
  text_preview :: ustring
  raw_usage :: "(ustring \<times> int) list option"

record 'w env =
  retrieve_examples :: "ustring \<Rightarrow> ustring \<Rightarrow> 'w \<Rightarrow> (exn + ustring \<times> retrieval_trace) \<times> 'w"
  llm_generate_ad :: "ustring \<Rightarrow> ustring \<Rightarrow> 'w \<Rightarrow> (exn + ustring option \<times> llm_meta) \<times> 'w"

record settings =
  MAX_PROMPT_CHARS :: int
  ENABLE_REPAIR :: bool

text \<open>
  One constructor for each shape of trace entry the pipeline appends: the values of its
  \<open>prompt\<close> dictionary, then those of its \<open>response\<close> dictionary.
\<close>

datatype step_data =
    InputGuardData ustring bool bool nat int mode
  | IntentGuardData ustring bool ustring bool mode
  | RetrieverData ustring ustring ustring retrieval_trace ustring
  | AdCopyWriterData ustring ustring llm_meta
  | FormatRepairData ustring ustring mode llm_meta
  | FinalResponseComposerData bool mode bool

datatype step = Step (module: ustring) (data: step_data)

record result =
  status :: ustring
  error :: "ustring option"
  response :: "ustring option"
  steps :: "step list"

definition error_result :: "exn \<Rightarrow> step list \<Rightarrow> result" where
  "error_result e st =
     \<lparr>status = ustr ''error'', error = Some (exn_type e @ ustr '': '' @ exn_msg e),
      response = None, steps = st\<rparr>"

definition repair_format ::
  "'w env \<Rightarrow> ustring \<Rightarrow> ustring \<Rightarrow> mode \<Rightarrow> 'w \<Rightarrow> (exn + ustring option \<times> llm_meta) \<times> 'w" where
  "repair_format ev product_prompt draft m w =
     llm_generate_ad ev (fst (repair_messages product_prompt draft m))
       (snd (repair_messages product_prompt draft m)) w"

text \<open>From the generator's text to the result: validation, the repair call, composition.\<close>

definition run_agent_compose ::
  "settings \<Rightarrow> 'w env \<Rightarrow> ustring \<Rightarrow> mode \<Rightarrow> step list \<Rightarrow> ustring option \<Rightarrow> 'w \<Rightarrow> result \<times> 'w" where
  "run_agent_compose cfg ev prompt m st llm_text w =
     (let final_text = py_strip (or_empty llm_text) in
      if ENABLE_REPAIR cfg \<and> \<not> is_valid_format (Some final_text) m then
        (case repair_format ev prompt final_text m w of
           (Inl e, w') \<Rightarrow> (error_result e st, w')
         | (Inr (fixed, meta2), w') \<Rightarrow>
             (let st' = st @ [Step (ustr ''FormatRepair'')
                                (FormatRepairData (ustr ''formatter'') (ustr ''(see above)'') m meta2)];
                  repaired = is_valid_format fixed m;
                  final_text' = (if repaired then py_strip (or_empty fixed) else final_text)
              in (\<lparr>status = ustr ''ok'', error = None, response = Some final_text',
                   steps = st' @ [Step (ustr ''FinalResponseComposer'')
                     (FinalResponseComposerData repaired m (is_valid_format (Some final_text') m))]\<rparr>,
                  w')))
      else
        (\<lparr>status = ustr ''ok'', error = None, response = Some final_text,
          steps = st @ [Step (ustr ''FinalResponseComposer'')
            (FinalResponseComposerData False m (is_valid_format (Some final_text) m))]\<rparr>,
         w))"

text \<open>From the retrieved context to the generator's text.\<close>

definition run_agent_generate ::
  "settings \<Rightarrow> 'w env \<Rightarrow> ustring \<Rightarrow> mode \<Rightarrow> step list \<Rightarrow> ustring \<Rightarrow> 'w \<Rightarrow> result \<times> 'w" where
  "run_agent_generate cfg ev prompt m st ctx w =
     (let condensed = condense_ctx prompt ctx 10;
          allowed_terms = extract_allowed_terms condensed 12;
          system_msg = fst (build_messages prompt condensed allowed_terms m);
          user_msg = snd (build_messages prompt condensed allowed_terms m)
      in case llm_generate_ad ev system_msg user_msg w of
           (Inl e, w') \<Rightarrow> (error_result e st, w')
         | (Inr (llm_text, meta), w') \<Rightarrow>
             run_agent_compose cfg ev prompt m
               (st @ [Step (ustr ''AdCopyWriter'') (AdCopyWriterData system_msg user_msg meta)])
               llm_text w')"

definition run_agent ::
  "settings \<Rightarrow> 'w env \<Rightarrow> ustring \<Rightarrow> ustring \<Rightarrow> 'w \<Rightarrow> result \<times> 'w" where
  "run_agent cfg ev user_prompt category_filter w =
     (let prompt = py_strip user_prompt;
          m = detect_mode prompt;
          empty = (prompt = []);
          too_long = (MAX_PROMPT_CHARS cfg < int (length prompt));
          st1 = [Step (ustr ''InputGuard'')
                   (InputGuardData user_prompt empty too_long (length prompt) (MAX_PROMPT_CHARS cfg) m)]
      in if empty then
           (\<lparr>status = ustr ''error'', error = Some (ustr ''Empty prompt''), response = None,
             steps = st1\<rparr>, w)
         else if too_long then
           (\<lparr>status = ustr ''error'', error = Some (ustr ''Prompt too long''), response = None,
             steps = st1\<rparr>, w)
         else
           let from_wizard = (py_in (ustr ''RAG Category Filter:'') prompt
                              \<or> py_in (ustr ''Category:'') prompt \<or> py_in (ustr ''Task:'') prompt);
               gate = (if from_wizard then (False, []) else should_clarify prompt);
               st2 = st1 @ [Step (ustr ''IntentGuard'')
                              (IntentGuardData prompt (fst gate) (snd gate) from_wizard m)]
           in if fst gate then
                (\<lparr>status = ustr ''ok'', error = None,
                  response = Some (clarification_response (snd gate)), steps = st2\<rparr>, w)
              else
                let search_query = rewrite_query prompt in
                case retrieve_examples ev search_query category_filter w of
                  (Inl e, w') \<Rightarrow> (error_result e st2, w')
                | (Inr (ctx, trace), w') \<Rightarrow>
                    run_agent_generate cfg ev prompt m
                      (st2 @ [Step (ustr ''AmazonInspirationRetriever'')
                                (RetrieverData search_query prompt category_filter trace
                                   (py_take 1200 ctx))])
                      ctx w')"

section \<open>Collaborators that keep a record of their calls\<close>

text \<open>
  To say which outside calls a run makes, the collaborators themselves keep the
  record: \<open>recording ev\<close> behaves as \<open>ev\<close> does on the first component of its world and
  appends every call it receives, with what it was given and what it answered, to the
  list in the second component. The pipeline cannot write to that list otherwise than
  by calling a collaborator.
\<close>

datatype io_event =
    Retrieve ustring ustring "exn + ustring \<times> retrieval_trace"
  | Generate ustring ustring "exn + ustring option \<times> llm_meta"

definition recording :: "'w env \<Rightarrow> ('w \<times> io_event list) env" where
  "recording ev =
     \<lparr>retrieve_examples = (\<lambda>query category_filter wl.
        (fst (retrieve_examples ev query category_filter (fst wl)),
         (snd (retrieve_examples ev query category_filter (fst wl)),
          snd wl @ [Retrieve query category_filter
                      (fst (retrieve_examples ev query category_filter (fst wl)))]))),
      llm_generate_ad = (\<lambda>system_msg user_msg wl.
        (fst (llm_generate_ad ev system_msg user_msg (fst wl)),
         (snd (llm_generate_ad ev system_msg user_msg (fst wl)),
          snd wl @ [Generate system_msg user_msg
                      (fst (llm_generate_ad ev system_msg user_msg (fst wl)))])))\<rparr>"

section \<open>The conversation wizard (conversation_manager.py)\<close>

text \<open>
  The state is a dictionary that the caller sends in and gets back, decoded from JSON.
  Its values are modelled as the scalars \<open>None\<close>, string, boolean and integer; arrays,
  objects and fractional numbers as values are outside the model.
\<close>

datatype pyval = PNone | PStr ustring | PBool bool | PInt int

type_synonym state = "ustring \<rightharpoonup> pyval"

definition truthy :: "pyval \<Rightarrow> bool" where
  "truthy v = (case v of PNone \<Rightarrow> False | PStr s \<Rightarrow> s \<noteq> [] | PBool b \<Rightarrow> b | PInt i \<Rightarrow> i \<noteq> 0)"

text \<open>\<open>d.get(k, default)\<close>; \<open>d.get(k)\<close> is \<open>get d k PNone\<close>.\<close>

definition get :: "state \<Rightarrow> ustring \<Rightarrow> pyval \<Rightarrow> pyval" where
  "get d k dflt = (case d k of None \<Rightarrow> dflt | Some v \<Rightarrow> v)"

text \<open>The decimal digits of a natural number, and \<open>str(v)\<close> as an f-string formats a value.\<close>

function decimal :: "nat \<Rightarrow> ustring" where
  "decimal n = (if n < 10 then [48 + n] else decimal (n div 10) @ [48 + n mod 10])"
  by pat_completeness auto
termination
  by (relation "measure id") auto

definition py_str :: "pyval \<Rightarrow> ustring" where
  "py_str v =
     (case v of
        PNone \<Rightarrow> ustr ''None''
      | PStr s \<Rightarrow> s
      | PBool b \<Rightarrow> (if b then ustr ''True'' else ustr ''False'')
      | PInt i \<Rightarrow> (if i < 0 then ustr ''-'' @ decimal (nat (- i)) else decimal (nat i)))"

text \<open>\<open>s.split(sep)\<close> for a separator that is a non-empty string.\<close>

function split_str_from :: "ustring \<Rightarrow> ustring \<Rightarrow> ustring \<Rightarrow> ustring list" where
  "split_str_from sep cur [] = [cur]"
| "split_str_from sep cur (c # cs) =
     (if sep \<noteq> [] \<and> prefix sep (c # cs)
      then cur # split_str_from sep [] (drop (length sep) (c # cs))
      else split_str_from sep (cur @ [c]) cs)"
  by pat_completeness auto
termination
  by (relation "measure (\<lambda>(sep, cur, s). length s)") auto

definition py_split_str :: "ustring \<Rightarrow> ustring \<Rightarrow> ustring list" where
  "py_split_str sep s = split_str_from sep [] s"

text \<open>\<open>xs[1]\<close>, which raises \<open>IndexError\<close> on a list of fewer than two elements.\<close>

definition index1 :: "ustring list \<Rightarrow> exn + ustring" where
  "index1 xs =
     (case xs of
        _ # x # _ \<Rightarrow> Inr x
      | _ \<Rightarrow> Inl (Exn (ustr ''IndexError'') (ustr ''list index out of range'')))"

text \<open>
  An entry of a payload's \<open>options\<close>: a dictionary with the keys \<open>id\<close> and \<open>label\<close>, and
  for the menu actions also \<open>desc\<close>.
\<close>

record option_item =
  opt_id :: ustring
  opt_label :: ustring
  opt_desc :: "ustring option"

definition MENU_ACTIONS :: "option_item list" where
  "MENU_ACTIONS =
     [\<lparr>opt_id = ustr ''full_ad'',
       opt_label = [9997, 65039] @ ustr ''  Create Full Ad'',
       opt_desc = Some (ustr ''Headline + 5 bullets + description + keywords + publishing tips'')\<rparr>,
      \<lparr>opt_id = ustr ''headline_only'',
       opt_label = [127991, 65039] @ ustr ''  Create Headline Only'',
       opt_desc = Some (ustr ''One high-converting headline line'')\<rparr>,
      \<lparr>opt_id = ustr ''keywords_5'',
       opt_label = [128273] @ ustr ''  Get 5 Must-Use Keywords'',
       opt_desc = Some (ustr ''Exactly 5 keywords/phrases to include in the headline'')\<rparr>]"

record subcategory =
  sub_id :: ustring
  sub_label :: ustring
  sub_pinecone_id :: ustring

record category =
  cat_id :: ustring
  cat_label :: ustring
  cat_pinecone_id :: ustring
  subcategories :: "subcategory list"

definition CATEGORY_TREE :: "category list" where
  "CATEGORY_TREE =
     [\<lparr>cat_id = ustr ''electronics'', cat_label = [128187] @ ustr ''  Electronics & Computers'',
       cat_pinecone_id = ustr ''electronics'',
       subcategories =
         [\<lparr>sub_id = ustr ''electronics'', sub_label = ustr ''Electronics (General)'',
           sub_pinecone_id = ustr ''electronics''\<rparr>,
          \<lparr>sub_id = ustr ''computers'', sub_label = ustr ''Computers'',
           sub_pinecone_id = ustr ''computers''\<rparr>]\<rparr>,
      \<lparr>cat_id = ustr ''home_kitchen'', cat_label = [127968] @ ustr ''  Home & Kitchen'',
       cat_pinecone_id = ustr ''home-kitchen'', subcategories = []\<rparr>,
      \<lparr>cat_id = ustr ''sports_outdoors'', cat_label = [9917] @ ustr ''  Sports & Outdoors'',
       cat_pinecone_id = ustr ''sports-outdoors'', subcategories = []\<rparr>,
      \<lparr>cat_id = ustr ''beauty_health'', cat_label = [128132] @ ustr ''  Beauty & Health'',
       cat_pinecone_id = ustr ''health-household'',
       subcategories =
         [\<lparr>sub_id = ustr ''beauty'', sub_label = ustr ''Beauty'',
           sub_pinecone_id = ustr ''beauty''\<rparr>,
          \<lparr>sub_id = ustr ''health-household'', sub_label = ustr ''Health & Household'',
           sub_pinecone_id = ustr ''health-household''\<rparr>]\<rparr>,
      \<lparr>cat_id = ustr ''automotive'', cat_label = [128663] @ ustr ''  Automotive'',
       cat_pinecone_id = ustr ''automotive'', subcategories = []\<rparr>,
      \<lparr>cat_id = ustr ''baby'', cat_label = [127868] @ ustr ''  Baby'',
       cat_pinecone_id = ustr ''baby'', subcategories = []\<rparr>,
      \<lparr>cat_id = ustr ''pets'', cat_label = [128062] @ ustr ''  Pets'',
       cat_pinecone_id = ustr ''pets'', subcategories = []\<rparr>,
      \<lparr>cat_id = ustr ''luggage'', cat_label = [129523] @ ustr ''  Luggage & Travel'',
       cat_pinecone_id = ustr ''luggage'', subcategories = []\<rparr>,
      \<lparr>cat_id = ustr ''arts_crafts'', cat_label = [127912] @ ustr ''  Arts & Crafts'',
       cat_pinecone_id = ustr ''arts_crafts'', subcategories = []\<rparr>,
      \<lparr>cat_id = ustr ''industrial'', cat_label = [127981] @ ustr ''  Industrial & Scientific'',
       cat_pinecone_id = ustr ''industrial-scientific'', subcategories = []\<rparr>]"

text \<open>The last two spellings are the Hebrew words of the source, as code points.\<close>

definition BACK_COMMANDS :: "ustring list" where
  "BACK_COMMANDS =
     [ustr ''__back'', ustr ''back'', ustr ''go back'', ustr ''prev'', ustr ''previous'',
      ustr ''return'', [1495, 1494, 1493, 1512], [1488, 1495, 1493, 1512, 1492]]"

definition empty_state :: state where
  "empty_state = map_of
     [(ustr ''step'', PStr (ustr ''GREETING'')),
      (ustr ''action'', PNone),
      (ustr ''category'', PNone),
      (ustr ''subcategory'', PNone),
      (ustr ''product'', PNone),
      (ustr ''constraints'', PNone)]"

definition top_level_options :: "option_item list" where
  "top_level_options =
     map (\<lambda>c. \<lparr>opt_id = cat_id c, opt_label = cat_label c, opt_desc = None\<rparr>) CATEGORY_TREE"

definition subcategory_options :: "pyval \<Rightarrow> option_item list" where
  "subcategory_options cid =
     (case find (\<lambda>c. PStr (cat_id c) = cid) CATEGORY_TREE of
        Some c \<Rightarrow>
          map (\<lambda>s. \<lparr>opt_id = sub_id s, opt_label = sub_label s, opt_desc = None\<rparr>) (subcategories c)
      | None \<Rightarrow> [])"

definition has_subcategories :: "pyval \<Rightarrow> bool" where
  "has_subcategories cid =
     (case find (\<lambda>c. PStr (cat_id c) = cid) CATEGORY_TREE of
        Some c \<Rightarrow> 1 < length (subcategories c)
      | None \<Rightarrow> False)"

definition pinecone_id :: "pyval \<Rightarrow> pyval \<Rightarrow> pyval" where
  "pinecone_id cid sid =
     (case (if truthy sid
            then find (\<lambda>s. PStr (sub_id s) = sid) (concat (map subcategories CATEGORY_TREE))
            else None) of
        Some s \<Rightarrow> PStr (sub_pinecone_id s)
      | None \<Rightarrow>
          (case find (\<lambda>c. PStr (cat_id c) = cid) CATEGORY_TREE of
             Some c \<Rightarrow> PStr (cat_pinecone_id c)
           | None \<Rightarrow> cid))"

definition category_label :: "pyval \<Rightarrow> pyval \<Rightarrow> exn + pyval" where
  "category_label cid sid =
     (case find (\<lambda>c. PStr (cat_id c) = cid) CATEGORY_TREE of
        None \<Rightarrow> Inr cid
      | Some c \<Rightarrow>
          (case (if truthy sid then find (\<lambda>s. PStr (sub_id s) = sid) (subcategories c) else None) of
             Some s \<Rightarrow>
               (case index1 (py_split_str (ustr ''  '') (cat_label c)) of
                  Inl e \<Rightarrow> Inl e
                | Inr l \<Rightarrow> Inr (PStr (l @ ustr '' > '' @ sub_label s)))
           | None \<Rightarrow>
               (if py_in (ustr ''  '') (cat_label c)
                then (case index1 (py_split_str (ustr ''  '') (cat_label c)) of
                        Inl e \<Rightarrow> Inl e
                      | Inr l \<Rightarrow> Inr (PStr l))
                else Inr (PStr (cat_label c)))))"

definition all_top_ids :: "ustring list" where
  "all_top_ids = map cat_id CATEGORY_TREE"

record payload =
  message :: ustring
  ui_type :: ustring
  options :: "option_item list option"
  ready :: bool
  agent_prompt :: "ustring option"

definition payload_for_step :: "state \<Rightarrow> exn + payload" where
  "payload_for_step st =
     (let step = get st (ustr ''step'') (PStr (ustr ''GREETING'')) in
      if step = PStr (ustr ''MENU'') then
        Inr \<lparr>message = ustr ''What would you like to do today?'', ui_type = ustr ''menu'',
             options = Some MENU_ACTIONS, ready = False, agent_prompt = None\<rparr>
      else if step = PStr (ustr ''COLLECT_CATEGORY'') then
        Inr \<lparr>message = ustr ''Select the **main category** of your product:'',
             ui_type = ustr ''categories'', options = Some top_level_options, ready = False,
             agent_prompt = None\<rparr>
      else if step = PStr (ustr ''COLLECT_SUBCATEGORY'') then
        (let cid = get st (ustr ''category'') (PStr []) in
         case category_label cid PNone of
           Inl e \<Rightarrow> Inl e
         | Inr cat_lbl \<Rightarrow>
             Inr \<lparr>message = ustr ''Great '' @ [8212] @ ustr '' **'' @ py_str cat_lbl @
                            ustr ''**! Now pick a sub-category:'',
                  ui_type = ustr ''categories'', options = Some (subcategory_options cid),
                  ready = False, agent_prompt = None\<rparr>)
      else if step = PStr (ustr ''COLLECT_PRODUCT'') then
        (case category_label (get st (ustr ''category'') (PStr [])) (get st (ustr ''subcategory'') PNone) of
           Inl e \<Rightarrow> Inl e
         | Inr cat_lbl \<Rightarrow>
             Inr \<lparr>message = ustr ''Perfect '' @ [8212] @ ustr '' **'' @ py_str cat_lbl @
                            ustr ''**!'' @ [10, 10] @ ustr ''Describe your product:'' @ [10, 8226] @
                            ustr '' Name / model'' @ [10, 8226] @
                            ustr '' Key features (material, size, color, specs)'' @ [10, 8226] @
                            ustr '' What makes it unique'',
                  ui_type = ustr ''input'', options = None, ready = False, agent_prompt = None\<rparr>)
      else if step = PStr (ustr ''COLLECT_CONSTRAINTS'') then
        Inr \<lparr>message = ustr ''Any constraints or preferences?'' @ [10, 10] @ ustr ''Examples:'' @
                        [10, 8226] @ ustr '' Target audience'' @ [10, 8226] @ ustr '' Tone'' @
                        [10, 8226] @ ustr '' Language (default: English)'' @ [10, 8226] @
                        ustr '' Things to avoid (e.g. no emojis)'' @ [10, 10] @
                        ustr ''Or type **skip**.'',
             ui_type = ustr ''input'', options = None, ready = False, agent_prompt = None\<rparr>
      else
        Inr \<lparr>message = ustr ''Something went wrong. Let'' @ [39] @ ustr ''s start over!'',
             ui_type = ustr ''menu'', options = Some MENU_ACTIONS, ready = False,
             agent_prompt = None\<rparr>)"

definition go_back :: "state \<Rightarrow> state" where
  "go_back st =
     (let step = get st (ustr ''step'') (PStr (ustr ''GREETING'')) in
      if step = PStr (ustr ''GREETING'') \<or> step = PStr (ustr ''MENU'') then
        empty_state(ustr ''step'' \<mapsto> PStr (ustr ''MENU''))
      else if step = PStr (ustr ''COLLECT_CATEGORY'') then
        empty_state(ustr ''step'' \<mapsto> PStr (ustr ''MENU''))
      else if step = PStr (ustr ''COLLECT_SUBCATEGORY'') then
        st(ustr ''step'' \<mapsto> PStr (ustr ''COLLECT_CATEGORY''), ustr ''subcategory'' \<mapsto> PNone)
      else if step = PStr (ustr ''COLLECT_PRODUCT'') then
        (let cid = get st (ustr ''category'') PNone in
         if truthy cid \<and> has_subcategories cid then
           st(ustr ''step'' \<mapsto> PStr (ustr ''COLLECT_SUBCATEGORY''), ustr ''product'' \<mapsto> PNone,
              ustr ''constraints'' \<mapsto> PNone)
         else
           st(ustr ''step'' \<mapsto> PStr (ustr ''COLLECT_CATEGORY''), ustr ''category'' \<mapsto> PNone,
              ustr ''subcategory'' \<mapsto> PNone, ustr ''product'' \<mapsto> PNone,
              ustr ''constraints'' \<mapsto> PNone))
      else if step = PStr (ustr ''COLLECT_CONSTRAINTS'') then
        st(ustr ''step'' \<mapsto> PStr (ustr ''COLLECT_PRODUCT''), ustr ''constraints'' \<mapsto> PNone)
      else if step = PStr (ustr ''GENERATE'') then
        st(ustr ''step'' \<mapsto> PStr (ustr ''COLLECT_CONSTRAINTS''))
      else empty_state(ustr ''step'' \<mapsto> PStr (ustr ''MENU'')))"

definition with_payload :: "state \<Rightarrow> exn + state \<times> payload" where
  "with_payload new_state =
     (case payload_for_step new_state of Inl e \<Rightarrow> Inl e | Inr pl \<Rightarrow> Inr (new_state, pl))"

definition action_instruction :: "pyval \<Rightarrow> ustring" where
  "action_instruction action =
     (if action = PStr (ustr ''full_ad'') then
        ustr ''Write a full high-converting ad: headline + 5 bullets + short '' @
        ustr ''description + keywords + publishing tips.''
      else if action = PStr (ustr ''headline_only'') then
        ustr ''Write ONLY a high-converting headline for this product. Output only '' @ [39] @
        ustr ''Headline: ...'' @ [39] @ ustr ''.''
      else if action = PStr (ustr ''keywords_5'') then
        ustr ''Generate ONLY a list of 5 keywords/phrases that MUST be included in '' @
        ustr ''the headline. Output only '' @ [39] @ ustr ''Keywords: k1, k2, k3, k4, k5'' @
        [39] @ ustr ''.''
      else ustr ''Write a full high-converting ad.'')"

definition process_message :: "ustring \<Rightarrow> state option \<Rightarrow> exn + state \<times> payload" where
  "process_message user_input state0 =
     (let st = (case state0 of
                  None \<Rightarrow> empty_state
                | Some s \<Rightarrow> if \<not> truthy (get s (ustr ''step'') PNone) then empty_state else s);
          step = get st (ustr ''step'') (PStr (ustr ''GREETING''));
          text = py_strip user_input
      in
      if text \<noteq> [] \<and> py_lower text \<in> set BACK_COMMANDS then with_payload (go_back st)
      else if step = PStr (ustr ''GREETING'') then
        Inr (st(ustr ''step'' \<mapsto> PStr (ustr ''MENU'')),
             \<lparr>message = [128075] @ ustr '' Welcome to **Ad-Wise**!'' @ [10, 10] @
                ustr ''I help you craft high-converting ad copy grounded in real product '' @
                ustr ''listing data.'' @ [10, 10] @ ustr ''Choose an option:'',
              ui_type = ustr ''menu'', options = Some MENU_ACTIONS, ready = False,
              agent_prompt = None\<rparr>)
      else if step = PStr (ustr ''MENU'') then
        (if text \<notin> set (map opt_id MENU_ACTIONS) then
           Inr (st, \<lparr>message = ustr ''Please choose one of the options below:'',
                     ui_type = ustr ''menu'', options = Some MENU_ACTIONS, ready = False,
                     agent_prompt = None\<rparr>)
         else with_payload (st(ustr ''step'' \<mapsto> PStr (ustr ''COLLECT_CATEGORY''),
                               ustr ''action'' \<mapsto> PStr text)))
      else if step = PStr (ustr ''COLLECT_CATEGORY'') then
        (if text \<notin> set all_top_ids then
           Inr (st, \<lparr>message = ustr ''Please select a category from the list:'',
                     ui_type = ustr ''categories'', options = Some top_level_options,
                     ready = False, agent_prompt = None\<rparr>)
         else if has_subcategories (PStr text) then
           with_payload (st(ustr ''category'' \<mapsto> PStr text,
                            ustr ''step'' \<mapsto> PStr (ustr ''COLLECT_SUBCATEGORY'')))
         else
           with_payload (st(ustr ''category'' \<mapsto> PStr text,
                            ustr ''step'' \<mapsto> PStr (ustr ''COLLECT_PRODUCT''),
                            ustr ''subcategory'' \<mapsto> PNone)))
      else if step = PStr (ustr ''COLLECT_SUBCATEGORY'') then
        (let cid = get st (ustr ''category'') (PStr []) in
         if text \<notin> set (map opt_id (subcategory_options cid)) then
           Inr (st, \<lparr>message = ustr ''Please select a sub-category:'',
                     ui_type = ustr ''categories'', options = Some (subcategory_options cid),
                     ready = False, agent_prompt = None\<rparr>)
         else with_payload (st(ustr ''step'' \<mapsto> PStr (ustr ''COLLECT_PRODUCT''),
                               ustr ''subcategory'' \<mapsto> PStr text)))
      else if step = PStr (ustr ''COLLECT_PRODUCT'') then
        (if length text < 5 then
           Inr (st, \<lparr>message = ustr ''Please describe your product in a bit more detail:'',
                     ui_type = ustr ''input'', options = None, ready = False,
                     agent_prompt = None\<rparr>)
         else with_payload (st(ustr ''step'' \<mapsto> PStr (ustr ''COLLECT_CONSTRAINTS''),
                               ustr ''product'' \<mapsto> PStr text)))
      else if step = PStr (ustr ''COLLECT_CONSTRAINTS'') then
        (let constraints = (if py_lower text = ustr ''skip'' then [] else text);
             new_state = st(ustr ''step'' \<mapsto> PStr (ustr ''GENERATE''),
                            ustr ''constraints'' \<mapsto> PStr constraints);
             action = get new_state (ustr ''action'') (PStr (ustr ''full_ad''));
             cid = get new_state (ustr ''category'') (PStr []);
             sid = get new_state (ustr ''subcategory'') PNone;
             product = get new_state (ustr ''product'') (PStr []);
             cons_str = (if constraints \<noteq> [] then constraints else ustr ''None'')
         in case category_label cid sid of
              Inl e \<Rightarrow> Inl e
            | Inr cat_lbl \<Rightarrow>
                Inr (new_state,
                     \<lparr>message = [9989] @ ustr '' Got it! Generating output for _'' @
                                 py_str cat_lbl @ ustr ''_...'',
                      ui_type = ustr ''result'', options = None, ready = True,
                      agent_prompt = Some
                        (ustr ''Product: '' @ py_str product @ [10] @
                         ustr ''Category: '' @ py_str cat_lbl @ [10] @
                         ustr ''RAG Category Filter: '' @ py_str (pinecone_id cid sid) @ [10] @
                         ustr ''Constraints: '' @ cons_str @ [10] @
                         ustr ''Platform: E-commerce'' @ [10] @
                         ustr ''Task: '' @ action_instruction action)\<rparr>))
      else if step = PStr (ustr ''GENERATE'') then
        with_payload (empty_state(ustr ''step'' \<mapsto> PStr (ustr ''MENU'')))
      else with_payload empty_state)"

section \<open>Reading the record of a run\<close>

text \<open>
  A repair call is a call of the generator with the formatter's system message, which
  only \<open>_repair_format\<close> sends. The first four trace entries of a run that reached the
  generator's answer carry the module names of \<open>stage_names\<close>.
\<close>

fun is_repair_call :: "io_event \<Rightarrow> bool" where
  "is_repair_call (Generate system_msg user_msg r) = (system_msg = formatter_system_msg)"
| "is_repair_call (Retrieve q f r) = False"

definition stage_names :: "ustring list" where
  "stage_names = [ustr ''InputGuard'', ustr ''IntentGuard'', ustr ''AmazonInspirationRetriever'',
                  ustr ''AdCopyWriter'']"

section \<open>The ranking loop without its bound\<close>

text \<open>
  What the ranking loop keeps when it is never cut off; the loop itself returns a
  prefix of this list. It serves the proofs only.
\<close>

fun rank_all :: "ustring list \<Rightarrow> ustring list \<Rightarrow> ustring list" where
  "rank_all seen [] = []"
| "rank_all seen (s # rest) =
     (let k = py_strip (py_lower s) in
      if k = [] \<or> k \<in> set seen then rank_all seen rest
      else s # rank_all (k # seen) rest)"

section \<open>The specification's wording\<close>

text \<open>
  The clarification gate as the specification words it for a text that passed the two
  length checks: the intent and product signals, the count of tokens of at least two
  characters, and the four rules in their order.
\<close>

definition spec_clarification_gate :: "ustring \<Rightarrow> bool \<times> ustring" where
  "spec_clarification_gate text =
     (let lowered = py_lower (py_strip text);
          hasIntent = list_ex (\<lambda>h. py_in h lowered) INTENT_HINTS;
          hasProduct = (list_ex (\<lambda>h. py_in h lowered) PRODUCT_HINTS
                        \<or> py_in (ustr ''product:'') lowered);
          meaningful_count = length (filter (\<lambda>t. 2 \<le> length t) (findall_alnum lowered))
      in if hasIntent \<and> \<not> hasProduct then (True, ustr ''missing_product'')
         else if meaningful_count < 3 then
           (if hasProduct then (False, []) else (True, ustr ''too_few_tokens''))
         else if \<not> hasIntent \<and> \<not> hasProduct then (True, ustr ''no_intent_or_product'')
         else (False, []))"

text \<open>
  The phrase checks of the mode detector on one piece of lower-cased text, and the
  specification's reading of a structured request: only what follows the first
  \<open>task:\<close> marker is inspected.
\<close>

definition classify_phrases :: "ustring \<Rightarrow> mode" where
  "classify_phrases phrase =
     (if (py_in (ustr ''write only'') phrase \<and> py_in (ustr ''headline'') phrase)
         \<or> py_in (ustr ''headline only'') phrase then MODE_HEADLINE
      else if py_in (ustr ''5 keywords'') phrase \<or> py_in (ustr ''five keywords'') phrase
         \<or> py_in (ustr ''keywords that must be included'') phrase then MODE_KEYWORDS5
      else MODE_FULL)"

fun after_marker :: "ustring \<Rightarrow> ustring \<Rightarrow> ustring" where
  "after_marker marker [] = []"
| "after_marker marker (c # cs) =
     (if prefix marker (c # cs) then drop (length marker) (c # cs)
      else after_marker marker cs)"

definition spec_detect_mode_after_task :: "ustring \<Rightarrow> mode" where
  "spec_detect_mode_after_task text =
     classify_phrases (after_marker (ustr ''task:'') (py_lower text))"


section \<open>Example inputs\<close>

text \<open>A text in the full format with \<open>n\<close> bullet lines.\<close>

definition example_full_text :: "nat \<Rightarrow> ustring" where
  "example_full_text n =
     ustr ''Headline: Red ceramic mug'' @ [10] @
     ustr ''Bullets:'' @ [10] @
     concat (replicate n (ustr ''- Holds 350 ml'' @ [10])) @
     ustr ''Short description: A mug for every morning.'' @ [10] @
     ustr ''Keywords: mug, red mug, ceramic mug'' @ [10] @
     ustr ''Publishing tips: Post in the morning.''"

text \<open>A request with a headline phrase in front of its \<open>Task:\<close> line.\<close>

definition example_notes_request :: ustring where
  "example_notes_request = ustr ''Notes: headline only ideas. Task: Full ad''"

text \<open>A keywords line followed by a second line.\<close>

definition example_two_line_keywords :: ustring where
  "example_two_line_keywords =
     ustr ''Keywords: aa, bb, cc, dd, ee'' @ [10] @ ustr ''Headline: Great mug''"

text \<open>Two wizard states: one waiting for a sub-category, one at the menu.\<close>

definition example_subcategory_state :: state where
  "example_subcategory_state = map_of
     [(ustr ''step'', PStr (ustr ''COLLECT_SUBCATEGORY'')),
      (ustr ''action'', PStr (ustr ''headline_only'')),
      (ustr ''category'', PStr (ustr ''electronics'')),
      (ustr ''subcategory'', PStr (ustr ''computers'')),
      (ustr ''product'', PNone),
      (ustr ''constraints'', PNone)]"

definition example_menu_state :: state where
  "example_menu_state = map_of
     [(ustr ''step'', PStr (ustr ''MENU'')),
      (ustr ''action'', PStr (ustr ''full_ad'')),
      (ustr ''category'', PNone),
      (ustr ''subcategory'', PNone),
      (ustr ''product'', PNone),
      (ustr ''constraints'', PNone)]"

text \<open>A structured request with a category line and a product line.\<close>

definition example_wizard_request :: ustring where
  "example_wizard_request = ustr ''Category: Pets'' @ [10] @ ustr ''Product: dog leash''"

text \<open>A request and a retrieved context block with ties and a repeated line.\<close>

definition example_prompt :: ustring where
  "example_prompt = ustr ''red ceramic mug''"

definition example_ctx :: ustring where
  "example_ctx =
     ustr ''[Category: kitchen]'' @ [10] @ ustr ''- Blue cup'' @ [10] @ ustr ''- Red Mug'' @ [10] @
     ustr ''- green plate'' @ [10] @ ustr ''- red mug'' @ [10] @ ustr ''- Ceramic bowl''"

text \<open>
  Collaborators for two runs: a retriever that returns two candidate lines, and a
  generator whose first answer is a bare sentence and whose later answers put a remark
  in front of it; neither answer is a headline line. The state of the world counts the
  generator's calls. The settings are the defaults, without and with the repair call,
  and both runs start in a world with an empty record of calls.
\<close>

definition example_trace :: retrieval_trace where
  "example_trace =
     \<lparr>provider = ustr ''local_fts'', top_k = 5, namespace = [], index_name = ustr ''data/amazon_ads_fts.sqlite'',
      matches = 2, categories = [ustr ''unknown''], ads_used = 2,
      trace_note = ustr ''Used local SQLite FTS fallback''\<rparr>"

definition example_meta :: llm_meta where
  "example_meta =
     \<lparr>used_url = ustr ''https://api.llmod.ai/v1/chat/completions'', model = ustr ''reasoning'',
      text_preview = [], raw_usage = None\<rparr>"

definition example_env :: "nat env" where
  "example_env =
     \<lparr>retrieve_examples = (\<lambda>q f w.
        (Inr (ustr ''[Category: unknown]'' @ [10] @ ustr ''- Red ceramic mug 350 ml'' @ [10] @
              ustr ''- Blue travel mug'', example_trace), w)),
      llm_generate_ad = (\<lambda>s u w.
        (Inr (Some (if w = 0 then ustr ''A great red mug'' else ustr ''Here it is: A great red mug''),
              example_meta), Suc w))\<rparr>"

definition example_headline_request :: ustring where
  "example_headline_request = ustr ''Product: red mug'' @ [10] @ ustr ''Task: headline only''"


definition repair_settings :: settings where
  "repair_settings = \<lparr>MAX_PROMPT_CHARS = 4000, ENABLE_REPAIR = True\<rparr>"


definition example_repair_run :: "result \<times> nat \<times> io_event list" where
  "example_repair_run =
     run_agent repair_settings (recording example_env) example_headline_request [] (0, [])"

section \<open>Verified properties\<close>

subsection \<open>Guards of the string operations\<close>

text \<open>
  Each \<open>split(":", 1)[1]\<close> of the source is reached only with a colon in the string, so
  the index exists and \<open>after_colon\<close> is its value.
\<close>

lemma prefix_member: "prefix p s \<Longrightarrow> c \<in> set p \<Longrightarrow> c \<in> set s"
  by (auto simp: prefix_def)

lemma startswith_Category_colon: "startswith line (ustr ''Category:'') \<Longrightarrow> 58 \<in> set line"
  unfolding startswith_def by (erule prefix_member) (simp add: ustr_def)

lemma startswith_Product_colon: "startswith line (ustr ''Product:'') \<Longrightarrow> 58 \<in> set line"
  unfolding startswith_def by (erule prefix_member) (simp add: ustr_def)

lemma lower_cp_colon: "lower_cp c = 58 \<longleftrightarrow> c = 58"
  by (auto simp: lower_cp_def)

lemma keywords_prefix_colon:
  assumes "startswith (py_lower t) (ustr ''keywords:'')"
  shows "58 \<in> set t"
proof -
  have "58 \<in> set (py_lower t)"
    using assms unfolding startswith_def by (rule prefix_member) (simp add: ustr_def)
  then obtain c where "c \<in> set t" "lower_cp c = 58"
    by (auto simp: py_lower_def)
  then show ?thesis by (simp add: lower_cp_colon)
qed

text \<open>
  Every label of the category tree holds the two spaces at which \<open>_category_label\<close>
  splits it, so the \<open>IndexError\<close> of its \<open>[1]\<close> is never raised.
\<close>

lemma category_labels_split:
  "list_all (\<lambda>c. case index1 (py_split_str (ustr ''  '') (cat_label c)) of
                     Inl e \<Rightarrow> False | Inr l \<Rightarrow> l \<noteq> [])
     CATEGORY_TREE"
  by code_simp

subsection \<open>Clarification gate\<close>

text \<open>
  C8. For every free-form text of at least 12 characters after trimming, the clarification
  gate decides by the four rules in the specification's order: an intent hint without a
  product signal asks for the product (\<open>missing_product\<close>); otherwise fewer than three
  tokens of two or more characters ask for more (\<open>too_few_tokens\<close>) unless a product
  signal is present, in which case the request proceeds; otherwise a text with neither
  signal is sent back (\<open>no_intent_or_product\<close>); otherwise the request proceeds.
\<close>

theorem should_clarify_rule_order:
  assumes "12 \<le> length (py_strip text)"
  shows "should_clarify text = spec_clarification_gate text"
proof -
  from assms have "py_strip text \<noteq> []" by auto
  with assms show ?thesis
    by (simp add: should_clarify_def spec_clarification_gate_def Let_def
        MIN_PROMPT_CHARS_FOR_AGENT_def MIN_TOKENS_FOR_AGENT_def)
qed

theorem should_clarify_rule_order_witness:
  "12 \<le> length (py_strip (ustr ''mug!!!!!!!!!!!!!''))
   \<and> should_clarify (ustr ''mug!!!!!!!!!!!!!'') = (False, [])
   \<and> spec_clarification_gate (ustr ''mug!!!!!!!!!!!!!'') = (False, [])"
proof -
  have h: "12 \<le> length (py_strip (ustr ''mug!!!!!!!!!!!!!''))" by code_simp
  have g: "spec_clarification_gate (ustr ''mug!!!!!!!!!!!!!'') = (False, [])" by code_simp
  from should_clarify_rule_order [OF h] g h show ?thesis by simp
qed

subsection \<open>Mode detection\<close>

text \<open>
  C2, as stated, fails: in the example request the phrase \<open>headline only\<close> stands in
  front of the \<open>Task:\<close> marker and nothing headline-related follows it, so inspecting
  only what follows the marker gives the full mode, while the detector answers with
  the headline mode.
\<close>

theorem detect_mode_after_task_counterexample:
  "py_in (ustr ''Task:'') example_notes_request
   \<and> spec_detect_mode_after_task example_notes_request = MODE_FULL
   \<and> detect_mode example_notes_request = MODE_HEADLINE"
  by code_simp

text \<open>
  C2, amended. For every request text whose lower-cased form contains \<open>task:\<close>, the
  detector applies the phrase checks to the whole lower-cased text: headline mode for
  (\<open>write only\<close> and \<open>headline\<close>) or \<open>headline only\<close>, else keywords mode for
  \<open>5 keywords\<close>, \<open>five keywords\<close> or \<open>keywords that must be included\<close>, else full
  mode. A phrase in front of the marker counts as much as one behind it.
\<close>

theorem detect_mode_task_whole_text:
  assumes "py_in (ustr ''task:'') (py_lower text)"
  shows "detect_mode text = classify_phrases (py_lower text)"
  using assms by (simp add: detect_mode_def classify_phrases_def Let_def)

theorem detect_mode_task_whole_text_witness:
  "py_in (ustr ''task:'') (py_lower example_notes_request)
   \<and> detect_mode example_notes_request = MODE_HEADLINE"
proof -
  have h: "py_in (ustr ''task:'') (py_lower example_notes_request)"
    by code_simp
  have c: "classify_phrases (py_lower example_notes_request) = MODE_HEADLINE"
    by code_simp
  from detect_mode_task_whole_text [OF h] c h show ?thesis by simp
qed

subsection \<open>Format validation\<close>

text \<open>
  C4. The keywords validator does not look for line breaks: the two-line example, whose
  fifth item runs on into a second line, is accepted.
\<close>

theorem keywords5_accepts_second_line:
  "py_splitlines (py_strip example_two_line_keywords)
     = [ustr ''Keywords: aa, bb, cc, dd, ee'', ustr ''Headline: Great mug'']
   \<and> validate_keywords5_line example_two_line_keywords
   \<and> is_valid_format (Some example_two_line_keywords) MODE_KEYWORDS5"
  by code_simp

text \<open>
  C5, as stated, fails on its first example: the first item of
  \<open>Keywords: a, bb, ccc, dddd, eeeee\<close> has one character, and the validator rejects
  every item shorter than two.
\<close>

theorem spec_keywords_example_counterexample:
  "\<not> is_valid_format (Some (ustr ''Keywords: a, bb, ccc, dddd, eeeee'')) MODE_KEYWORDS5"
  by code_simp

text \<open>
  C5, amended. \<open>Keywords: a, bb, ccc, dddd, eeeee\<close> is invalid for the keywords mode
  (its first item is too short), while the same line with \<open>aa\<close> as first item is valid;
  \<open>Keywords: a, b\<close> is invalid for the keywords mode; and a full-format text is valid
  with five bullet lines and invalid with four.
\<close>

theorem validator_examples:
  "\<not> is_valid_format (Some (ustr ''Keywords: a, bb, ccc, dddd, eeeee'')) MODE_KEYWORDS5
   \<and> is_valid_format (Some (ustr ''Keywords: aa, bb, ccc, dddd, eeeee'')) MODE_KEYWORDS5
   \<and> \<not> is_valid_format (Some (ustr ''Keywords: a, b'')) MODE_KEYWORDS5
   \<and> is_valid_format (Some (example_full_text 5)) MODE_FULL
   \<and> \<not> is_valid_format (Some (example_full_text 4)) MODE_FULL"
  by code_simp

theorem validator_examples_witness:
  "\<not> is_valid_format (Some (example_full_text 4)) MODE_FULL"
  using validator_examples by simp

subsection \<open>The conversation wizard\<close>

lemma step_names_distinct:
  "ustr ''COLLECT_SUBCATEGORY'' \<noteq> ustr ''GREETING''"
  "ustr ''COLLECT_SUBCATEGORY'' \<noteq> ustr ''MENU''"
  "ustr ''COLLECT_SUBCATEGORY'' \<noteq> ustr ''COLLECT_CATEGORY''"
  "ustr ''COLLECT_SUBCATEGORY'' \<noteq> []"
  "ustr ''MENU'' \<noteq> ustr ''GREETING''"
  "ustr ''MENU'' \<noteq> []"
  "ustr ''COLLECT_CATEGORY'' \<noteq> ustr ''MENU''"
  "ustr ''GREETING'' \<noteq> []"
  by (simp_all add: ustr_def)

lemma key_names_distinct:
  "ustr ''step'' \<noteq> ustr ''action''" "ustr ''step'' \<noteq> ustr ''category''"
  "ustr ''step'' \<noteq> ustr ''subcategory''" "ustr ''step'' \<noteq> ustr ''product''"
  "ustr ''step'' \<noteq> ustr ''constraints''"
  "ustr ''subcategory'' \<noteq> ustr ''action''" "ustr ''subcategory'' \<noteq> ustr ''category''"
  "ustr ''subcategory'' \<noteq> ustr ''product''" "ustr ''subcategory'' \<noteq> ustr ''constraints''"
  by (simp_all add: ustr_def)

lemma payload_menu:
  "st (ustr ''step'') = Some (PStr (ustr ''MENU'')) \<Longrightarrow>
   payload_for_step st = Inr \<lparr>message = ustr ''What would you like to do today?'', ui_type = ustr ''menu'',
             options = Some MENU_ACTIONS, ready = False, agent_prompt = None\<rparr>"
  by (simp add: payload_for_step_def get_def)

lemma payload_collect_category:
  "st (ustr ''step'') = Some (PStr (ustr ''COLLECT_CATEGORY'')) \<Longrightarrow>
   payload_for_step st = Inr \<lparr>message = ustr ''Select the **main category** of your product:'',
             ui_type = ustr ''categories'', options = Some top_level_options, ready = False,
             agent_prompt = None\<rparr>"
  by (simp add: payload_for_step_def get_def step_names_distinct)

text \<open>
  C9. A back command (a non-empty trimmed input whose lower-cased form is one of the
  back spellings) sent in a state whose step is \<open>COLLECT_SUBCATEGORY\<close> gives the same
  state with the step set to \<open>COLLECT_CATEGORY\<close> and the sub-category set to \<open>None\<close>:
  action, category, product and constraints are what they were. Sent in a state whose
  step is \<open>MENU\<close>, it gives the fresh empty state with the step \<open>MENU\<close>.
\<close>

theorem back_command_predecessor:
  assumes "py_strip text \<noteq> []" and "py_lower (py_strip text) \<in> set BACK_COMMANDS"
  shows "(st (ustr ''step'') = Some (PStr (ustr ''COLLECT_SUBCATEGORY'')) \<longrightarrow>
            (\<exists>new_state pl. process_message text (Some st) = Inr (new_state, pl)
               \<and> new_state = st(ustr ''step'' \<mapsto> PStr (ustr ''COLLECT_CATEGORY''),
                                ustr ''subcategory'' \<mapsto> PNone)
               \<and> new_state (ustr ''step'') = Some (PStr (ustr ''COLLECT_CATEGORY''))
               \<and> new_state (ustr ''subcategory'') = Some PNone
               \<and> new_state (ustr ''action'') = st (ustr ''action'')
               \<and> new_state (ustr ''category'') = st (ustr ''category'')
               \<and> new_state (ustr ''product'') = st (ustr ''product'')
               \<and> new_state (ustr ''constraints'') = st (ustr ''constraints'')))
       \<and> (st (ustr ''step'') = Some (PStr (ustr ''MENU'')) \<longrightarrow>
            (\<exists>pl. process_message text (Some st)
                     = Inr (empty_state(ustr ''step'' \<mapsto> PStr (ustr ''MENU'')), pl)))"
proof (intro conjI impI)
  assume s: "st (ustr ''step'') = Some (PStr (ustr ''COLLECT_SUBCATEGORY''))"
  let ?n = "st(ustr ''step'' \<mapsto> PStr (ustr ''COLLECT_CATEGORY''), ustr ''subcategory'' \<mapsto> PNone)"
  have g: "go_back st = ?n"
    using s by (simp add: go_back_def get_def step_names_distinct)
  have "?n (ustr ''step'') = Some (PStr (ustr ''COLLECT_CATEGORY''))"
    by (simp add: key_names_distinct)
  then have p: "\<exists>pl. payload_for_step ?n = Inr pl"
    by (simp add: payload_collect_category del: fun_upd_apply)
  have "process_message text (Some st) = with_payload ?n"
    using s assms g by (simp add: process_message_def get_def truthy_def step_names_distinct)
  with p obtain pl where "process_message text (Some st) = Inr (?n, pl)"
    by (auto simp: with_payload_def)
  then show "\<exists>new_state pl. process_message text (Some st) = Inr (new_state, pl)
               \<and> new_state = ?n
               \<and> new_state (ustr ''step'') = Some (PStr (ustr ''COLLECT_CATEGORY''))
               \<and> new_state (ustr ''subcategory'') = Some PNone
               \<and> new_state (ustr ''action'') = st (ustr ''action'')
               \<and> new_state (ustr ''category'') = st (ustr ''category'')
               \<and> new_state (ustr ''product'') = st (ustr ''product'')
               \<and> new_state (ustr ''constraints'') = st (ustr ''constraints'')"
    by (simp add: ustr_def)
next
  assume s: "st (ustr ''step'') = Some (PStr (ustr ''MENU''))"
  let ?n = "empty_state(ustr ''step'' \<mapsto> PStr (ustr ''MENU''))"
  have g: "go_back st = ?n"
    using s by (simp add: go_back_def get_def)
  have p: "\<exists>pl. payload_for_step ?n = Inr pl"
    by (simp add: payload_menu)
  have "process_message text (Some st) = with_payload ?n"
    using s assms g by (simp add: process_message_def get_def truthy_def step_names_distinct)
  with p show "\<exists>pl. process_message text (Some st) = Inr (?n, pl)"
    by (auto simp: with_payload_def)
qed

theorem back_command_predecessor_witness:
  "py_strip (ustr '' Back '') \<noteq> []
   \<and> py_lower (py_strip (ustr '' Back '')) \<in> set BACK_COMMANDS
   \<and> example_subcategory_state (ustr ''step'') = Some (PStr (ustr ''COLLECT_SUBCATEGORY''))
   \<and> (\<exists>pl. process_message (ustr '' Back '') (Some example_subcategory_state)
              = Inr (example_subcategory_state
                       (ustr ''step'' \<mapsto> PStr (ustr ''COLLECT_CATEGORY''),
                        ustr ''subcategory'' \<mapsto> PNone), pl))
   \<and> example_menu_state (ustr ''step'') = Some (PStr (ustr ''MENU''))
   \<and> (\<exists>pl. process_message (ustr '' Back '') (Some example_menu_state)
              = Inr (empty_state(ustr ''step'' \<mapsto> PStr (ustr ''MENU'')), pl))"
proof -
  have h1: "py_strip (ustr '' Back '') \<noteq> []" by code_simp
  have h2: "py_lower (py_strip (ustr '' Back '')) \<in> set BACK_COMMANDS" by code_simp
  have h3: "example_subcategory_state (ustr ''step'') = Some (PStr (ustr ''COLLECT_SUBCATEGORY''))"
    by (simp add: example_subcategory_state_def)
  have h4: "example_menu_state (ustr ''step'') = Some (PStr (ustr ''MENU''))"
    by (simp add: example_menu_state_def)
  from back_command_predecessor [OF h1 h2, of example_subcategory_state]
       back_command_predecessor [OF h1 h2, of example_menu_state] h1 h2 h3 h4
  show ?thesis by blast
qed

lemma go_back_empty_state: "go_back empty_state = empty_state(ustr ''step'' \<mapsto> PStr (ustr ''MENU''))"
  by (simp add: go_back_def get_def empty_state_def)

text \<open>
  C10. Whatever the input, with no state or with a state that has no \<open>step\<close> key the
  next state is the empty state with its step set to \<open>MENU\<close> (action, category,
  sub-category, product and constraints all \<open>None\<close>), and the payload is not ready and
  carries no agent prompt. A back command changes nothing in this.
\<close>

theorem missing_state_is_greeting:
  assumes "state0 = None \<or> (\<exists>s. state0 = Some s \<and> s (ustr ''step'') = None)"
  shows "\<exists>new_state pl. process_message text state0 = Inr (new_state, pl)
           \<and> new_state = empty_state(ustr ''step'' \<mapsto> PStr (ustr ''MENU''))
           \<and> new_state (ustr ''step'') = Some (PStr (ustr ''MENU''))
           \<and> new_state (ustr ''action'') = Some PNone
           \<and> new_state (ustr ''category'') = Some PNone
           \<and> new_state (ustr ''subcategory'') = Some PNone
           \<and> new_state (ustr ''product'') = Some PNone
           \<and> new_state (ustr ''constraints'') = Some PNone
           \<and> ready pl = False \<and> agent_prompt pl = None"
proof -
  let ?n = "empty_state(ustr ''step'' \<mapsto> PStr (ustr ''MENU''))"
  have fresh: "(case state0 of None \<Rightarrow> empty_state
                | Some s \<Rightarrow> if \<not> truthy (get s (ustr ''step'') PNone) then empty_state else s)
               = empty_state"
    using assms by (auto simp: get_def truthy_def)
  have greeting: "get empty_state (ustr ''step'') (PStr (ustr ''GREETING'')) = PStr (ustr ''GREETING'')"
    by (simp add: get_def empty_state_def)
  have fields: "?n (ustr ''step'') = Some (PStr (ustr ''MENU''))
      \<and> ?n (ustr ''action'') = Some PNone \<and> ?n (ustr ''category'') = Some PNone
      \<and> ?n (ustr ''subcategory'') = Some PNone \<and> ?n (ustr ''product'') = Some PNone
      \<and> ?n (ustr ''constraints'') = Some PNone"
    by (simp add: empty_state_def ustr_def)
  have "\<exists>pl. process_message text state0 = Inr (?n, pl) \<and> ready pl = False \<and> agent_prompt pl = None"
  proof (cases "py_strip text \<noteq> [] \<and> py_lower (py_strip text) \<in> set BACK_COMMANDS")
    case True
    have "payload_for_step ?n = Inr \<lparr>message = ustr ''What would you like to do today?'',
             ui_type = ustr ''menu'', options = Some MENU_ACTIONS, ready = False,
             agent_prompt = None\<rparr>"
      by (rule payload_menu) simp
    with True show ?thesis
      by (simp add: process_message_def fresh greeting go_back_empty_state with_payload_def
          del: fun_upd_apply)
  next
    case False
    then show ?thesis
      by (simp add: process_message_def fresh greeting del: fun_upd_apply) auto
  qed
  with fields show ?thesis by blast
qed

theorem missing_state_is_greeting_witness:
  "(\<exists>pl. process_message (ustr ''back'') None
            = Inr (empty_state(ustr ''step'' \<mapsto> PStr (ustr ''MENU'')), pl)
          \<and> ready pl = False \<and> agent_prompt pl = None)
   \<and> (Map.empty :: state) (ustr ''step'') = None
   \<and> (\<exists>pl. process_message (ustr ''hello'') (Some Map.empty)
            = Inr (empty_state(ustr ''step'' \<mapsto> PStr (ustr ''MENU'')), pl)
          \<and> ready pl = False \<and> agent_prompt pl = None)"
proof -
  have a: "(None :: state option) = None \<or> (\<exists>s. (None :: state option) = Some s \<and> s (ustr ''step'') = None)"
    by simp
  have b: "Some (Map.empty :: state) = None
           \<or> (\<exists>s. Some (Map.empty :: state) = Some s \<and> s (ustr ''step'') = None)"
    by simp
  from missing_state_is_greeting [OF a, of "ustr ''back''"]
       missing_state_is_greeting [OF b, of "ustr ''hello''"]
  show ?thesis by auto
qed

subsection \<open>Query rewriting\<close>

text \<open>
  The tokenizer cuts at every character that is not a lower-case letter or digit, so the
  tokens of two texts joined by a space are the tokens of the one followed by those of
  the other; every token is a non-empty run of such characters.
\<close>

lemma findall_from_sep:
  "\<not> is_lc_alnum sep \<Longrightarrow>
   findall_from cur (a @ sep # b) = findall_from cur a @ findall_from [] b"
  by (induction a arbitrary: cur) auto

lemma findall_alnum_sep:
  "\<not> is_lc_alnum sep \<Longrightarrow> findall_alnum (a @ sep # b) = findall_alnum a @ findall_alnum b"
  by (simp add: findall_alnum_def findall_from_sep)

lemma findall_from_tokens:
  "list_all is_lc_alnum cur \<Longrightarrow>
   \<forall>t \<in> set (findall_from cur s). t \<noteq> [] \<and> list_all is_lc_alnum t"
proof (induction s arbitrary: cur)
  case Nil
  then show ?case by simp
next
  case (Cons c s)
  show ?case
  proof (cases "is_lc_alnum c")
    case True
    with Cons.prems have "list_all is_lc_alnum (cur @ [c])" by simp
    from Cons.IH [OF this] True show ?thesis by simp
  next
    case False
    have "list_all is_lc_alnum []" by simp
    from Cons.IH [OF this] False Cons.prems show ?thesis by simp
  qed
qed

lemma findall_alnum_tokens:
  "t \<in> set (findall_alnum s) \<Longrightarrow> t \<noteq> [] \<and> list_all is_lc_alnum t"
  using findall_from_tokens [of "[]" s] by (simp add: findall_alnum_def)

lemma query_tokens_append:
  "query_tokens (a @ 32 # b) = query_tokens a @ query_tokens b"
  by (simp add: query_tokens_def findall_alnum_sep is_lc_alnum_def)

lemma query_tokens_category: "query_tokens (ustr ''category'') = [ustr ''category'']"
  by code_simp

lemma lower_category_prefix:
  "py_lower (ustr ''category '' @ c @ ustr '' '' @ p)
     = ustr ''category'' @ 32 # (py_lower c @ 32 # py_lower p)"
  by (simp add: py_lower_def ustr_def lower_cp_def)

lemma query_tokens_member:
  "t \<in> set (query_tokens s) \<Longrightarrow>
   t \<noteq> [] \<and> list_all is_lc_alnum t \<and> 3 \<le> length t \<and> t \<notin> set STOPWORDS
   \<and> t \<in> set (findall_alnum s)"
  by (auto simp: query_tokens_def dest: findall_alnum_tokens)

lemma py_isspace_not_alnum: "is_lc_alnum c \<Longrightarrow> \<not> py_isspace c"
  by (auto simp: is_lc_alnum_def py_isspace_def)

lemma py_strip_id:
  assumes "s \<noteq> []" "\<not> py_isspace (hd s)" "\<not> py_isspace (last s)"
  shows "py_strip s = s"
proof -
  from assms have a: "dropWhile py_isspace s = s"
    by (cases s) auto
  from assms have "rev s \<noteq> []" "\<not> py_isspace (hd (rev s))"
    by (simp_all add: hd_rev)
  then have "dropWhile py_isspace (rev s) = rev s"
    by (cases "rev s") auto
  with a show ?thesis by (simp add: py_strip_def)
qed

lemma py_join_ends:
  "toks \<noteq> [] \<Longrightarrow> \<forall>t \<in> set toks. t \<noteq> [] \<Longrightarrow>
   py_join sep toks \<noteq> [] \<and> hd (py_join sep toks) = hd (hd toks)
   \<and> last (py_join sep toks) = last (last toks)"
  by (induction sep toks rule: py_join.induct) auto

lemma py_strip_join_tokens:
  assumes "toks \<noteq> []" "\<forall>t \<in> set toks. t \<noteq> [] \<and> list_all is_lc_alnum t"
  shows "py_strip (py_join sep toks) = py_join sep toks \<and> py_join sep toks \<noteq> []"
proof -
  from assms have e: "py_join sep toks \<noteq> [] \<and> hd (py_join sep toks) = hd (hd toks)
     \<and> last (py_join sep toks) = last (last toks)"
    by (intro py_join_ends) auto
  from assms have "hd toks \<in> set toks" "last toks \<in> set toks" by simp_all
  with assms have h: "hd toks \<noteq> [] \<and> list_all is_lc_alnum (hd toks)"
    and l: "last toks \<noteq> [] \<and> list_all is_lc_alnum (last toks)" by blast+
  from h have "is_lc_alnum (hd (hd toks))" by (cases "hd toks") auto
  moreover from l have "is_lc_alnum (last (last toks))"
    by (metis last_in_set list_all_iff)
  ultimately show ?thesis using e by (simp add: py_strip_id py_isspace_not_alnum)
qed

text \<open>
  C6, as stated, fails: the text that is tokenized starts with the literal word
  \<open>category\<close>, which passes the length and stopword filters, so the query of the
  example request starts with the token \<open>category\<close> although neither value holds it.
\<close>

theorem rewrite_query_from_values_counterexample:
  "rewrite_parts example_wizard_request = (ustr ''Pets'', ustr ''dog leash'')
   \<and> rewrite_query example_wizard_request = ustr ''category pets dog leash''
   \<and> findall_alnum (rewrite_query example_wizard_request)
       = [ustr ''category'', ustr ''pets'', ustr ''dog'', ustr ''leash'']
   \<and> \<not> py_in (ustr ''category'') (py_lower (ustr ''Pets''))
   \<and> \<not> py_in (ustr ''category'') (py_lower (ustr ''dog leash''))"
  by code_simp

text \<open>
  C6, amended. When the loop over the lines ends with a non-empty category value and a
  non-empty product value, the query is the first 12 of these tokens, joined by single
  spaces: the literal \<open>category\<close>, then the filtered tokens of the lower-cased category
  value, then those of the lower-cased product value. Every token kept is a non-empty
  run of lower-case letters and digits, at least 3 long and no stopword, and is either
  the literal \<open>category\<close> or a token of one of the two values.
\<close>

theorem rewrite_query_category_product:
  assumes "rewrite_parts prompt = (category_part, product_part)"
    and "category_part \<noteq> []" and "product_part \<noteq> []"
  shows "\<exists>toks. rewrite_query prompt = py_join (ustr '' '') toks
           \<and> toks = take 12 (ustr ''category'' # query_tokens (py_lower category_part)
                                @ query_tokens (py_lower product_part))
           \<and> length toks \<le> 12
           \<and> (\<forall>t \<in> set toks. t \<noteq> [] \<and> list_all is_lc_alnum t \<and> 3 \<le> length t
                  \<and> t \<notin> set STOPWORDS
                  \<and> (t = ustr ''category''
                      \<or> t \<in> set (findall_alnum (py_lower category_part))
                      \<or> t \<in> set (findall_alnum (py_lower product_part))))"
proof -
  let ?all = "ustr ''category'' # query_tokens (py_lower category_part)
                @ query_tokens (py_lower product_part)"
  let ?toks = "take 12 ?all"
  have all: "query_tokens (py_lower (ustr ''category '' @ category_part @ ustr '' '' @ product_part))
               = ?all"
    by (simp only: lower_category_prefix query_tokens_append query_tokens_category) simp
  have cat: "ustr ''category'' \<noteq> [] \<and> list_all is_lc_alnum (ustr ''category'')
       \<and> 3 \<le> length (ustr ''category'') \<and> ustr ''category'' \<notin> set STOPWORDS"
    by code_simp
  have props: "t \<noteq> [] \<and> list_all is_lc_alnum t \<and> 3 \<le> length t \<and> t \<notin> set STOPWORDS
       \<and> (t = ustr ''category'' \<or> t \<in> set (findall_alnum (py_lower category_part))
           \<or> t \<in> set (findall_alnum (py_lower product_part)))" if "t \<in> set ?toks" for t
  proof -
    from that have "t \<in> set ?all" by (rule in_set_takeD)
    then consider "t = ustr ''category''" | "t \<in> set (query_tokens (py_lower category_part))"
      | "t \<in> set (query_tokens (py_lower product_part))" by auto
    then show ?thesis
    proof cases
      case 1 with cat show ?thesis by simp
    next
      case 2 from query_tokens_member [OF this] show ?thesis by simp
    next
      case 3 from query_tokens_member [OF this] show ?thesis by simp
    qed
  qed
  have ne: "?toks \<noteq> []" by simp
  have "py_strip (py_join (ustr '' '') ?toks) = py_join (ustr '' '') ?toks
        \<and> py_join (ustr '' '') ?toks \<noteq> []"
    using ne props by (intro py_strip_join_tokens) blast+
  then have "rewrite_query prompt = py_join (ustr '' '') ?toks"
    using assms all by (simp add: rewrite_query_def Let_def)
  moreover have "length ?toks \<le> 12" by simp
  ultimately show ?thesis using props by blast
qed

theorem rewrite_query_category_product_witness:
  "rewrite_parts example_wizard_request = (ustr ''Pets'', ustr ''dog leash'')
   \<and> ustr ''Pets'' \<noteq> [] \<and> ustr ''dog leash'' \<noteq> []
   \<and> rewrite_query example_wizard_request
       = py_join (ustr '' '') [ustr ''category'', ustr ''pets'', ustr ''dog'', ustr ''leash'']"
proof -
  have h1: "rewrite_parts example_wizard_request = (ustr ''Pets'', ustr ''dog leash'')"
    by code_simp
  have h2: "ustr ''Pets'' \<noteq> []" and h3: "ustr ''dog leash'' \<noteq> []"
    by (simp_all add: ustr_def)
  have t: "take 12 (ustr ''category'' # query_tokens (py_lower (ustr ''Pets''))
             @ query_tokens (py_lower (ustr ''dog leash'')))
           = [ustr ''category'', ustr ''pets'', ustr ''dog'', ustr ''leash'']"
    by code_simp
  from rewrite_query_category_product [OF h1 h2 h3] t h1 h2 h3 show ?thesis by auto
qed

subsection \<open>Context ranking\<close>

text \<open>
  The sort keeps lines of equal score in their order, the loop keeps a line at its first
  appearance only, and the bound cuts the kept lines at the end.
\<close>

lemma py_sorted_reverse_stable:
  "filter (\<lambda>y. f y = k) (py_sorted_reverse f xs) = filter (\<lambda>y. f y = k) xs"
proof -
  have "filter (\<lambda>y. f y = k) (py_sorted_reverse f xs)
          = rev (filter (\<lambda>y. f y = k) (sort_key f (rev xs)))"
    by (simp add: py_sorted_reverse_def rev_filter)
  also have "\<dots> = rev (filter (\<lambda>y. f y = k) (rev xs))"
    by (simp only: sort_key_stable)
  also have "\<dots> = filter (\<lambda>y. f y = k) xs"
    by (simp add: rev_filter)
  finally show ?thesis .
qed

lemma rank_loop_take:
  "\<exists>m. rank_loop max_lines seen ranked xs = ranked @ take m (rank_all seen xs)"
proof (induction xs arbitrary: seen ranked)
  case Nil
  show ?case by simp
next
  case (Cons s rest)
  let ?k = "py_strip (py_lower s)"
  show ?case
  proof (cases "?k = [] \<or> ?k \<in> set seen")
    case True
    with Cons.IH [of seen ranked] show ?thesis by (simp add: Let_def)
  next
    case skip: False
    show ?thesis
    proof (cases "max_lines \<le> int (length (ranked @ [s]))")
      case True
      with skip have "rank_loop max_lines seen ranked (s # rest)
                        = ranked @ take 1 (rank_all seen (s # rest))"
        by (simp add: Let_def)
      then show ?thesis by blast
    next
      case False
      from Cons.IH [of "?k # seen" "ranked @ [s]"] obtain m where
        "rank_loop max_lines (?k # seen) (ranked @ [s]) rest
           = (ranked @ [s]) @ take m (rank_all (?k # seen) rest)" by blast
      with skip False have "rank_loop max_lines seen ranked (s # rest)
                        = ranked @ take (Suc m) (rank_all seen (s # rest))"
        by (simp add: Let_def)
      then show ?thesis by blast
    qed
  qed
qed

lemma rank_all_unseen:
  "\<forall>x \<in> set (rank_all seen xs). py_strip (py_lower x) \<notin> set seen \<and> py_strip (py_lower x) \<noteq> []"
proof (induction xs arbitrary: seen)
  case Nil
  show ?case by simp
next
  case (Cons s rest)
  let ?k = "py_strip (py_lower s)"
  show ?case
  proof (cases "?k = [] \<or> ?k \<in> set seen")
    case True
    with Cons.IH [of seen] show ?thesis by (simp add: Let_def)
  next
    case False
    with Cons.IH [of "?k # seen"] show ?thesis by (simp add: Let_def)
  qed
qed

lemma set_first_seen: "set (first_seen xs) = set xs"
  by (induction xs) auto

lemma distinct_first_seen: "distinct (first_seen xs)"
  by (induction xs) (auto simp: set_first_seen)

lemma filter_first_seen: "filter P (first_seen xs) = first_seen (filter P xs)"
proof (induction xs)
  case Nil
  show ?case by simp
next
  case (Cons x xs)
  show ?case
  proof (cases "P x")
    case True
    have "filter P (filter (\<lambda>y. y \<noteq> x) (first_seen xs))
            = filter (\<lambda>y. y \<noteq> x) (filter P (first_seen xs))"
      by (simp add: conj_commute)
    with True Cons.IH show ?thesis by simp
  next
    case False
    then have "x \<notin> set (first_seen (filter P xs))"
      by (simp add: set_first_seen)
    then have "filter (\<lambda>y. y \<noteq> x) (first_seen (filter P xs)) = first_seen (filter P xs)"
      by (auto simp: filter_id_conv)
    moreover have "filter P (filter (\<lambda>y. y \<noteq> x) (first_seen xs))
            = filter (\<lambda>y. y \<noteq> x) (filter P (first_seen xs))"
      by (simp add: conj_commute)
    ultimately show ?thesis using False Cons.IH by simp
  qed
qed

lemma subseq_without:
  assumes "subseq xs ys" "x \<notin> set xs"
  shows "subseq xs (filter (\<lambda>y. y \<noteq> x) ys)"
proof -
  from assms(1) have "subseq (filter (\<lambda>y. y \<noteq> x) xs) (filter (\<lambda>y. y \<noteq> x) ys)"
    by (rule subseq_filter)
  moreover from assms(2) have "filter (\<lambda>y. y \<noteq> x) xs = xs"
    by (auto simp: filter_id_conv)
  ultimately show ?thesis by simp
qed

lemma rank_all_subseq_first_seen: "subseq (rank_all seen xs) (first_seen xs)"
proof (induction xs arbitrary: seen)
  case Nil
  show ?case by simp
next
  case (Cons s rest)
  let ?k = "py_strip (py_lower s)"
  show ?case
  proof (cases "?k = [] \<or> ?k \<in> set seen")
    case True
    then have "s \<notin> set (rank_all seen rest)"
      using rank_all_unseen [of seen rest] by blast
    with Cons.IH [of seen] have "subseq (rank_all seen rest) (filter (\<lambda>y. y \<noteq> s) (first_seen rest))"
      by (rule subseq_without)
    then have "subseq (rank_all seen rest) (s # filter (\<lambda>y. y \<noteq> s) (first_seen rest))"
      by (rule list_emb_Cons)
    with True show ?thesis by (simp add: Let_def)
  next
    case False
    have "s \<notin> set (rank_all (?k # seen) rest)"
      using rank_all_unseen [of "?k # seen" rest] by auto
    with Cons.IH [of "?k # seen"]
    have "subseq (rank_all (?k # seen) rest) (filter (\<lambda>y. y \<noteq> s) (first_seen rest))"
      by (rule subseq_without)
    with False show ?thesis by (simp add: Let_def)
  qed
qed

lemma subseq_take_self: "subseq (take m xs) xs"
  by (rule prefix_imp_subseq) (rule take_is_prefix)

lemma subseq_distinct: "subseq xs ys \<Longrightarrow> distinct ys \<Longrightarrow> distinct xs"
  using in_set_subseqs subseqs_distinctD by blast

lemma ranked_lines_subseq:
  "subseq (ranked_lines prompt ctx max_lines)
     (first_seen (py_sorted_reverse (score (significant_tokens prompt)) (ctx_candidates ctx)))"
proof -
  let ?S = "py_sorted_reverse (score (significant_tokens prompt)) (ctx_candidates ctx)"
  from rank_loop_take [of max_lines "[]" "[]" ?S]
  obtain m where "ranked_lines prompt ctx max_lines = take m (rank_all [] ?S)"
    by (auto simp: ranked_lines_def)
  then have "subseq (ranked_lines prompt ctx max_lines) (rank_all [] ?S)"
    by (simp add: subseq_take_self)
  then show ?thesis
    using rank_all_subseq_first_seen [of "[]" ?S] by (rule subseq_order.trans)
qed

lemma ranked_lines_equal_score:
  "subseq (filter (\<lambda>s. score (significant_tokens prompt) s = v) (ranked_lines prompt ctx max_lines))
     (first_seen (filter (\<lambda>s. score (significant_tokens prompt) s = v) (ctx_candidates ctx)))"
proof -
  let ?q = "significant_tokens prompt"
  let ?P = "\<lambda>s. score ?q s = v"
  let ?S = "py_sorted_reverse (score ?q) (ctx_candidates ctx)"
  have "subseq (filter ?P (ranked_lines prompt ctx max_lines)) (filter ?P (first_seen ?S))"
    using ranked_lines_subseq by (rule subseq_filter)
  moreover have "filter ?P (first_seen ?S) = first_seen (filter ?P (ctx_candidates ctx))"
    by (simp only: filter_first_seen py_sorted_reverse_stable)
  ultimately show ?thesis by simp
qed

text \<open>
  C7. The ranker is stable under score ties. The condensed block is the ranked lines,
  each behind \<open>"- "\<close>, joined by line breaks; for every score the ranked lines of that
  score follow one another as in the input block (they are a subsequence of the input
  candidates of that score, each at its first appearance); so whenever a line \<open>a\<close>
  stands before a line \<open>b\<close> of the same score in the output, the two differ and \<open>a\<close>
  first appears before \<open>b\<close> first appears in the input.
\<close>

theorem condense_ctx_stable:
  "(ctx \<noteq> [] \<and> ctx_candidates ctx \<noteq> [] \<longrightarrow>
      condense_ctx prompt ctx max_lines
        = py_join [10] (map (\<lambda>s. ustr ''- '' @ s) (ranked_lines prompt ctx max_lines)))
   \<and> (\<forall>v. subseq
          (filter (\<lambda>s. score (significant_tokens prompt) s = v) (ranked_lines prompt ctx max_lines))
          (first_seen (filter (\<lambda>s. score (significant_tokens prompt) s = v) (ctx_candidates ctx))))
   \<and> (\<forall>a b. subseq [a, b] (ranked_lines prompt ctx max_lines)
          \<and> score (significant_tokens prompt) a = score (significant_tokens prompt) b
          \<longrightarrow> a \<noteq> b \<and> subseq [a, b] (first_seen (ctx_candidates ctx)))"
proof (intro conjI allI impI)
  assume "ctx \<noteq> [] \<and> ctx_candidates ctx \<noteq> []"
  then show "condense_ctx prompt ctx max_lines
        = py_join [10] (map (\<lambda>s. ustr ''- '' @ s) (ranked_lines prompt ctx max_lines))"
    by (simp add: condense_ctx_def)
next
  fix v
  show "subseq
          (filter (\<lambda>s. score (significant_tokens prompt) s = v) (ranked_lines prompt ctx max_lines))
          (first_seen (filter (\<lambda>s. score (significant_tokens prompt) s = v) (ctx_candidates ctx)))"
    by (rule ranked_lines_equal_score)
next
  fix a b
  let ?q = "significant_tokens prompt"
  let ?P = "\<lambda>s. score ?q s = score ?q a"
  assume ab: "subseq [a, b] (ranked_lines prompt ctx max_lines) \<and> score ?q a = score ?q b"
  then have "subseq (filter ?P [a, b]) (filter ?P (ranked_lines prompt ctx max_lines))"
    by (intro subseq_filter) simp
  with ab have "subseq [a, b] (filter ?P (ranked_lines prompt ctx max_lines))"
    by simp
  then have "subseq [a, b] (first_seen (filter ?P (ctx_candidates ctx)))"
    using ranked_lines_equal_score [of prompt "score ?q a" ctx max_lines]
    by (rule subseq_order.trans)
  then have "subseq [a, b] (filter ?P (first_seen (ctx_candidates ctx)))"
    by (simp only: filter_first_seen)
  then have s: "subseq [a, b] (first_seen (ctx_candidates ctx))"
    using subseq_filter_left by (rule subseq_order.trans)
  then have "distinct [a, b]"
    using distinct_first_seen by (rule subseq_distinct)
  with s show "a \<noteq> b" and "subseq [a, b] (first_seen (ctx_candidates ctx))"
    by simp_all
qed

theorem condense_ctx_stable_witness:
  "example_ctx \<noteq> [] \<and> ctx_candidates example_ctx \<noteq> []
   \<and> condense_ctx example_prompt example_ctx 10
       = ustr ''- Red Mug'' @ [10] @ ustr ''- Ceramic bowl'' @ [10] @ ustr ''- Blue cup'' @ [10] @
         ustr ''- green plate''
   \<and> subseq [ustr ''Blue cup'', ustr ''green plate''] (ranked_lines example_prompt example_ctx 10)
   \<and> score (significant_tokens example_prompt) (ustr ''Blue cup'')
       = score (significant_tokens example_prompt) (ustr ''green plate'')
   \<and> subseq [ustr ''Blue cup'', ustr ''green plate''] (first_seen (ctx_candidates example_ctx))"
proof -
  note stable = condense_ctx_stable [of example_ctx example_prompt 10]
  have h: "example_ctx \<noteq> [] \<and> ctx_candidates example_ctx \<noteq> []" by code_simp
  have r: "ranked_lines example_prompt example_ctx 10
             = [ustr ''Red Mug'', ustr ''Ceramic bowl'', ustr ''Blue cup'', ustr ''green plate'']"
    by code_simp
  have j: "py_join [10] (map (\<lambda>s. ustr ''- '' @ s)
             [ustr ''Red Mug'', ustr ''Ceramic bowl'', ustr ''Blue cup'', ustr ''green plate''])
           = ustr ''- Red Mug'' @ [10] @ ustr ''- Ceramic bowl'' @ [10] @ ustr ''- Blue cup'' @ [10] @
             ustr ''- green plate''"
    by code_simp
  have "subseq [ustr ''Blue cup'', ustr ''green plate'']
          [ustr ''Red Mug'', ustr ''Ceramic bowl'', ustr ''Blue cup'', ustr ''green plate'']"
    by code_simp
  then have s: "subseq [ustr ''Blue cup'', ustr ''green plate'']
                  (ranked_lines example_prompt example_ctx 10)"
    by (simp only: r)
  have e: "score (significant_tokens example_prompt) (ustr ''Blue cup'')
             = score (significant_tokens example_prompt) (ustr ''green plate'')"
    by code_simp
  from stable [THEN conjunct1] h
  have "condense_ctx example_prompt example_ctx 10
          = py_join [10] (map (\<lambda>s. ustr ''- '' @ s) (ranked_lines example_prompt example_ctx 10))"
    by (rule mp)
  then have c: "condense_ctx example_prompt example_ctx 10
          = ustr ''- Red Mug'' @ [10] @ ustr ''- Ceramic bowl'' @ [10] @ ustr ''- Blue cup'' @ [10] @
            ustr ''- green plate''"
    by (simp only: r j)
  from stable [THEN conjunct2, THEN conjunct2] s e
  have "subseq [ustr ''Blue cup'', ustr ''green plate''] (first_seen (ctx_candidates example_ctx))"
    by blast
  with h c s e show ?thesis by blast
qed

subsection \<open>The pipeline\<close>

text \<open>
  The generation call and the repair call differ in their system message. A recording
  collaborator answers as the collaborator it wraps and adds the call to the record.
  A run that starts with an empty record either is refused by the input guard, or ends
  with the clarification reply, or ends with the exception of the retriever or of the
  generator, or continues from the generator's answer with four trace entries and two
  recorded calls; from there it finishes without a repair call, or with a repair call
  that raised, or with one that returned.
\<close>

lemma build_messages_not_formatter:
  "fst (build_messages prompt condensed allowed m) \<noteq> formatter_system_msg"
  by (simp add: build_messages_def formatter_system_msg_def Let_def ustr_def)

lemma repair_messages_formatter: "fst (repair_messages prompt draft m) = formatter_system_msg"
  by (simp add: repair_messages_def Let_def)

lemma recording_generate:
  "llm_generate_ad ev system_msg user_msg w = (r, w') \<Longrightarrow>
   llm_generate_ad (recording ev) system_msg user_msg (w, log)
     = (r, (w', log @ [Generate system_msg user_msg r]))"
  by (simp add: recording_def)

lemma recording_retrieve:
  "retrieve_examples ev query category_filter w = (r, w') \<Longrightarrow>
   retrieve_examples (recording ev) query category_filter (w, log)
     = (r, (w', log @ [Retrieve query category_filter r]))"
  by (simp add: recording_def)


lemma stage_names_no_composer:
  "ustr ''FinalResponseComposer'' \<noteq> ustr ''InputGuard''"
  "ustr ''FinalResponseComposer'' \<noteq> ustr ''IntentGuard''"
  "ustr ''FinalResponseComposer'' \<noteq> ustr ''AmazonInspirationRetriever''"
  "ustr ''FinalResponseComposer'' \<noteq> ustr ''AdCopyWriter''"
  "ustr ''FinalResponseComposer'' \<noteq> ustr ''FormatRepair''"
  by (simp_all add: ustr_def)

lemma run_agent_compose_shape:
  assumes run: "run_agent_compose cfg (recording ev) prompt m st llm_text (w, log) = (res, (w', io))"
  obtains
    (plain) "\<not> (ENABLE_REPAIR cfg \<and> \<not> is_valid_format (Some (py_strip (or_empty llm_text))) m)"
      "io = log" "w' = w"
      "res = \<lparr>status = ustr ''ok'', error = None,
              response = Some (py_strip (or_empty llm_text)),
              steps = st @ [Step (ustr ''FinalResponseComposer'')
                 (FinalResponseComposerData False m
                    (is_valid_format (Some (py_strip (or_empty llm_text))) m))]\<rparr>"
  | (repair_raised) e where
      "ENABLE_REPAIR cfg" "\<not> is_valid_format (Some (py_strip (or_empty llm_text))) m"
      "llm_generate_ad ev formatter_system_msg
         (snd (repair_messages prompt (py_strip (or_empty llm_text)) m)) w = (Inl e, w')"
      "io = log @ [Generate formatter_system_msg
                     (snd (repair_messages prompt (py_strip (or_empty llm_text)) m)) (Inl e)]"
      "res = error_result e st"
  | (repair_returned) fixed meta2 where
      "ENABLE_REPAIR cfg" "\<not> is_valid_format (Some (py_strip (or_empty llm_text))) m"
      "llm_generate_ad ev formatter_system_msg
         (snd (repair_messages prompt (py_strip (or_empty llm_text)) m)) w
       = (Inr (fixed, meta2), w')"
      "io = log @ [Generate formatter_system_msg
                     (snd (repair_messages prompt (py_strip (or_empty llm_text)) m))
                     (Inr (fixed, meta2))]"
      "res = \<lparr>status = ustr ''ok'', error = None,
              response = Some (if is_valid_format fixed m then py_strip (or_empty fixed)
                               else py_strip (or_empty llm_text)),
              steps = st @
                [Step (ustr ''FormatRepair'')
                   (FormatRepairData (ustr ''formatter'') (ustr ''(see above)'') m meta2),
                 Step (ustr ''FinalResponseComposer'')
                   (FinalResponseComposerData (is_valid_format fixed m) m
                      (is_valid_format
                         (Some (if is_valid_format fixed m then py_strip (or_empty fixed)
                                else py_strip (or_empty llm_text))) m))]\<rparr>"
proof (cases "ENABLE_REPAIR cfg \<and> \<not> is_valid_format (Some (py_strip (or_empty llm_text))) m")
  case False
  with run show ?thesis
    by (intro plain) (auto simp: run_agent_compose_def Let_def)
next
  case True
  let ?usr = "snd (repair_messages prompt (py_strip (or_empty llm_text)) m)"
  obtain r w2 where call: "llm_generate_ad ev formatter_system_msg ?usr w = (r, w2)"
    by (cases "llm_generate_ad ev formatter_system_msg ?usr w")
  note rec = recording_generate [OF call, of log]
  show ?thesis
  proof (cases r)
    case (Inl e)
    with run True call rec show ?thesis
      by (intro repair_raised [of e])
         (auto simp: run_agent_compose_def Let_def repair_format_def repair_messages_formatter)
  next
    case (Inr p)
    obtain fixed meta2 where p: "p = (fixed, meta2)" by (cases p)
    with run True call rec Inr show ?thesis
      by (intro repair_returned [of fixed meta2])
         (auto simp: run_agent_compose_def Let_def repair_format_def repair_messages_formatter)
  qed
qed

lemma run_agent_shape:
  assumes run: "run_agent cfg (recording ev) user_prompt category_filter (w, []) = (res, (w', io))"
  obtains
    (refused) "io = []" "status res = ustr ''error''"
      "map module (steps res) = [ustr ''InputGuard'']"
  | (clarified) "io = []" "status res = ustr ''ok''"
      "map module (steps res) = [ustr ''InputGuard'', ustr ''IntentGuard'']"
  | (retrieval_raised) q e where
      "io = [Retrieve q category_filter (Inl e)]" "status res = ustr ''error''"
      "map module (steps res) = [ustr ''InputGuard'', ustr ''IntentGuard'']"
  | (generation_raised) q c s0 u0 e where
      "io = [Retrieve q category_filter (Inr c), Generate s0 u0 (Inl e)]"
      "s0 \<noteq> formatter_system_msg" "status res = ustr ''error''"
      "map module (steps res)
         = [ustr ''InputGuard'', ustr ''IntentGuard'', ustr ''AmazonInspirationRetriever'']"
  | (generated) st q c s0 u0 llm_text meta w1 where
      "run_agent_compose cfg (recording ev) (py_strip user_prompt)
         (detect_mode (py_strip user_prompt)) st llm_text
         (w1, [Retrieve q category_filter (Inr c), Generate s0 u0 (Inr (llm_text, meta))])
       = (res, (w', io))"
      "s0 \<noteq> formatter_system_msg"
      "map module st = stage_names"
proof -
  let ?prompt = "py_strip user_prompt"
  let ?m = "detect_mode ?prompt"
  let ?wizard = "py_in (ustr ''RAG Category Filter:'') ?prompt
                   \<or> py_in (ustr ''Category:'') ?prompt \<or> py_in (ustr ''Task:'') ?prompt"
  let ?gate = "if ?wizard then (False, []) else should_clarify ?prompt"
  let ?q = "rewrite_query ?prompt"
  show ?thesis
  proof (cases "?prompt = [] \<or> MAX_PROMPT_CHARS cfg < int (length ?prompt)")
    case True
    with run show ?thesis
      by (intro refused) (auto simp: run_agent_def Let_def split: if_splits)
  next
    case ok: False
    show ?thesis
    proof (cases "fst ?gate")
      case True
      with run ok show ?thesis
        by (intro clarified) (auto simp: run_agent_def Let_def split: if_splits)
    next
      case go: False
      obtain r w1 where ret: "retrieve_examples ev ?q category_filter w = (r, w1)"
        by (cases "retrieve_examples ev ?q category_filter w")
      note rec = recording_retrieve [OF ret, of "[]"]
      show ?thesis
      proof (cases r)
        case (Inl e)
        with run ok go rec show ?thesis
          by (intro retrieval_raised [of ?q e])
             (auto simp: run_agent_def Let_def error_result_def split: if_splits)
      next
        case (Inr p)
        obtain ctx trace where p: "p = (ctx, trace)" by (cases p)
        let ?condensed = "condense_ctx ?prompt ctx 10"
        let ?msgs = "build_messages ?prompt ?condensed (extract_allowed_terms ?condensed 12) ?m"
        let ?st3 = "[Step (ustr ''InputGuard'')
                       (InputGuardData user_prompt (?prompt = [])
                          (MAX_PROMPT_CHARS cfg < int (length ?prompt)) (length ?prompt)
                          (MAX_PROMPT_CHARS cfg) ?m),
                     Step (ustr ''IntentGuard'')
                       (IntentGuardData ?prompt (fst ?gate) (snd ?gate) ?wizard ?m),
                     Step (ustr ''AmazonInspirationRetriever'')
                       (RetrieverData ?q ?prompt category_filter trace (py_take 1200 ctx))]"
        let ?log1 = "[Retrieve ?q category_filter (Inr (ctx, trace))]"
        from run ok go rec Inr p have gen:
          "run_agent_generate cfg (recording ev) ?prompt ?m ?st3 ctx (w1, ?log1) = (res, (w', io))"
          by (auto simp: run_agent_def Let_def split: if_splits)
        obtain r2 w2 where call: "llm_generate_ad ev (fst ?msgs) (snd ?msgs) w1 = (r2, w2)"
          by (cases "llm_generate_ad ev (fst ?msgs) (snd ?msgs) w1")
        note rec2 = recording_generate [OF call, of ?log1]
        show ?thesis
        proof (cases r2)
          case (Inl e)
          with gen rec2 show ?thesis
            by (intro generation_raised [of ?q "(ctx, trace)" "fst ?msgs" "snd ?msgs" e])
               (auto simp: run_agent_generate_def Let_def error_result_def
                  build_messages_not_formatter)
        next
          case (Inr p2)
          obtain llm_text meta where p2: "p2 = (llm_text, meta)" by (cases p2)
          from gen rec2 Inr p2 have
            "run_agent_compose cfg (recording ev) ?prompt ?m
               (?st3 @ [Step (ustr ''AdCopyWriter'')
                          (AdCopyWriterData (fst ?msgs) (snd ?msgs) meta)])
               llm_text
               (w2, [Retrieve ?q category_filter (Inr (ctx, trace)),
                     Generate (fst ?msgs) (snd ?msgs) (Inr (llm_text, meta))])
             = (res, (w', io))"
            by (auto simp: run_agent_generate_def Let_def)
          then show ?thesis
            by (rule generated) (simp_all add: build_messages_not_formatter stage_names_def)
        qed
      qed
    qed
  qed
qed

text \<open>Recording changes neither the result nor what the calls do to the world.\<close>

lemma recording_calls:
  "llm_generate_ad (recording ev) system_msg user_msg (w, log)
     = (fst (llm_generate_ad ev system_msg user_msg w),
        (snd (llm_generate_ad ev system_msg user_msg w),
         log @ [Generate system_msg user_msg (fst (llm_generate_ad ev system_msg user_msg w))]))"
  "retrieve_examples (recording ev) query category_filter (w, log)
     = (fst (retrieve_examples ev query category_filter w),
        (snd (retrieve_examples ev query category_filter w),
         log @ [Retrieve query category_filter
                  (fst (retrieve_examples ev query category_filter w))]))"
  by (simp_all add: recording_def)

lemma recording_compose:
  "fst (run_agent_compose cfg (recording ev) prompt m st llm_text (w, log))
     = fst (run_agent_compose cfg ev prompt m st llm_text w)"
  "fst (snd (run_agent_compose cfg (recording ev) prompt m st llm_text (w, log)))
     = snd (run_agent_compose cfg ev prompt m st llm_text w)"
  by (auto simp: run_agent_compose_def repair_format_def recording_calls Let_def
      split: prod.splits sum.splits)

lemma recording_generate_stage:
  "fst (run_agent_generate cfg (recording ev) prompt m st ctx (w, log))
     = fst (run_agent_generate cfg ev prompt m st ctx w)"
  "fst (snd (run_agent_generate cfg (recording ev) prompt m st ctx (w, log)))
     = snd (run_agent_generate cfg ev prompt m st ctx w)"
  by (auto simp: run_agent_generate_def recording_calls Let_def recording_compose
      split: prod.splits sum.splits)

lemma recording_run:
  "fst (run_agent cfg (recording ev) user_prompt category_filter (w, log))
     = fst (run_agent cfg ev user_prompt category_filter w)"
  "fst (snd (run_agent cfg (recording ev) user_prompt category_filter (w, log)))
     = snd (run_agent cfg ev user_prompt category_filter w)"
  by (auto simp: run_agent_def recording_calls Let_def recording_generate_stage
      split: prod.splits sum.splits)

text \<open>
  C1. Take any collaborators, any state of the world and any request, run the pipeline
  with repair enabled and let the collaborators record their calls. If the generator
  returned a draft that fails validation for the detected mode, then the calls the
  collaborators received are exactly three: the retrieval, the generation that returned
  the draft, and one call of the generator with the formatter's system message and the
  repair message for that draft; so exactly one repair call was issued and no second
  one. If that call returned a text that fails validation too, the result has status
  \<open>ok\<close> and no error, its response is the draft (the generator's first text, trimmed),
  and the last trace entry is the composer's with \<open>repaired\<close> and \<open>format_valid\<close> both
  false. The result and the world are those of the same run without the record. (A
  repair call that raises ends the run with the error result of that exception.)
\<close>

theorem repair_at_most_once:
  assumes rep: "ENABLE_REPAIR cfg"
    and run: "run_agent cfg (recording ev) user_prompt category_filter (w, []) = (res, (w', io))"
    and gen: "Generate system_msg user_msg (Inr (llm_text, meta)) \<in> set io"
    and sys: "system_msg \<noteq> formatter_system_msg"
    and bad: "\<not> is_valid_format (Some (py_strip (or_empty llm_text)))
                  (detect_mode (py_strip user_prompt))"
  shows "run_agent cfg ev user_prompt category_filter w = (res, w')
         \<and> (\<exists>q c r. io = [Retrieve q category_filter (Inr c),
                           Generate system_msg user_msg (Inr (llm_text, meta)),
                           Generate formatter_system_msg
                             (snd (repair_messages (py_strip user_prompt)
                                     (py_strip (or_empty llm_text))
                                     (detect_mode (py_strip user_prompt)))) r])
         \<and> length (filter is_repair_call io) = 1
         \<and> (\<forall>repair_msg fixed meta2.
               Generate formatter_system_msg repair_msg (Inr (fixed, meta2)) \<in> set io
               \<and> \<not> is_valid_format fixed (detect_mode (py_strip user_prompt))
               \<longrightarrow> status res = ustr ''ok'' \<and> error res = None
                   \<and> response res = Some (py_strip (or_empty llm_text))
                   \<and> last (steps res) = Step (ustr ''FinalResponseComposer'')
                        (FinalResponseComposerData False (detect_mode (py_strip user_prompt)) False))"
proof -
  let ?m = "detect_mode (py_strip user_prompt)"
  have same: "run_agent cfg ev user_prompt category_filter w = (res, w')"
    using recording_run [of cfg ev user_prompt category_filter w "[]"] run
    by (simp add: prod_eq_iff)
  from run have rest: "(\<exists>q c r. io = [Retrieve q category_filter (Inr c),
                           Generate system_msg user_msg (Inr (llm_text, meta)),
                           Generate formatter_system_msg
                             (snd (repair_messages (py_strip user_prompt)
                                     (py_strip (or_empty llm_text)) ?m)) r])
         \<and> length (filter is_repair_call io) = 1
         \<and> (\<forall>repair_msg fixed meta2.
               Generate formatter_system_msg repair_msg (Inr (fixed, meta2)) \<in> set io
               \<and> \<not> is_valid_format fixed ?m
               \<longrightarrow> status res = ustr ''ok'' \<and> error res = None
                   \<and> response res = Some (py_strip (or_empty llm_text))
                   \<and> last (steps res) = Step (ustr ''FinalResponseComposer'')
                        (FinalResponseComposerData False ?m False))"
  proof (cases rule: run_agent_shape)
    case refused
    with gen show ?thesis by simp
  next
    case clarified
    with gen show ?thesis by simp
  next
    case (retrieval_raised q e)
    with gen show ?thesis by simp
  next
    case (generation_raised q c s0 u0 e)
    with gen show ?thesis by simp
  next
    case (generated st q c s0 u0 t meta0 w1)
    from generated(1) show ?thesis
    proof (cases rule: run_agent_compose_shape)
      case plain
      with gen sys have "t = llm_text" by auto
      with plain rep bad show ?thesis by simp
    next
      case (repair_raised e)
      with gen sys generated(2) have t: "t = llm_text" "s0 = system_msg" "u0 = user_msg" "meta0 = meta"
        by auto
      with repair_raised(4) generated(2) show ?thesis by auto
    next
      case (repair_returned fixed meta2)
      with gen sys generated(2) have t: "t = llm_text" "s0 = system_msg" "u0 = user_msg" "meta0 = meta"
        by auto
      have shape: "\<exists>q c r. io = [Retrieve q category_filter (Inr c),
                           Generate system_msg user_msg (Inr (llm_text, meta)),
                           Generate formatter_system_msg
                             (snd (repair_messages (py_strip user_prompt)
                                     (py_strip (or_empty llm_text)) ?m)) r]"
        using repair_returned(4) t by simp
      have one: "length (filter is_repair_call io) = 1"
        using repair_returned(4) generated(2) by simp
      have "status res = ustr ''ok'' \<and> error res = None
            \<and> response res = Some (py_strip (or_empty llm_text))
            \<and> last (steps res) = Step (ustr ''FinalResponseComposer'')
                          (FinalResponseComposerData False ?m False)"
        if ev: "Generate formatter_system_msg repair_msg (Inr (fixed', meta2')) \<in> set io"
          and inv: "\<not> is_valid_format fixed' ?m" for repair_msg fixed' meta2'
      proof -
        from ev repair_returned(4) generated(2) have "fixed' = fixed" by auto
        with inv have "\<not> is_valid_format fixed ?m" by simp
        with repair_returned(5) t bad show ?thesis by simp
      qed
      with shape one show ?thesis by blast
    qed
  qed
  with same show ?thesis by blast
qed

theorem repair_at_most_once_witness:
  "ENABLE_REPAIR repair_settings
   \<and> \<not> is_valid_format (Some (ustr ''A great red mug'')) MODE_HEADLINE
   \<and> \<not> is_valid_format (Some (ustr ''Here it is: A great red mug'')) MODE_HEADLINE
   \<and> length (filter is_repair_call (snd (snd example_repair_run))) = 1
   \<and> length (snd (snd example_repair_run)) = 3
   \<and> fst (snd example_repair_run) = 2
   \<and> run_agent repair_settings example_env example_headline_request [] 0
       = (fst example_repair_run, 2)
   \<and> status (fst example_repair_run) = ustr ''ok''
   \<and> error (fst example_repair_run) = None
   \<and> response (fst example_repair_run) = Some (ustr ''A great red mug'')
   \<and> last (steps (fst example_repair_run))
       = Step (ustr ''FinalResponseComposer'') (FinalResponseComposerData False MODE_HEADLINE False)"
proof -
  let ?res = "fst example_repair_run" and ?io = "snd (snd example_repair_run)"
  have rep: "ENABLE_REPAIR repair_settings" by code_simp
  have run: "run_agent repair_settings (recording example_env) example_headline_request []
               (0, []) = (?res, (fst (snd example_repair_run), ?io))"
    by (simp add: example_repair_run_def)
  have m: "detect_mode (py_strip example_headline_request) = MODE_HEADLINE" by code_simp
  have d: "py_strip (or_empty (Some (ustr ''A great red mug''))) = ustr ''A great red mug''"
    by code_simp
  have w2: "fst (snd example_repair_run) = 2" by code_simp
  have "list_ex (\<lambda>e. case e of
             Generate s u x \<Rightarrow>
               s \<noteq> formatter_system_msg
               \<and> x = Inr (Some (ustr ''A great red mug''), example_meta)
           | Retrieve q f x \<Rightarrow> False) ?io"
    by code_simp
  then obtain e where e: "e \<in> set ?io"
    and pe: "case e of
           Generate s u x \<Rightarrow>
             s \<noteq> formatter_system_msg
             \<and> x = Inr (Some (ustr ''A great red mug''), example_meta)
         | Retrieve q f x \<Rightarrow> False"
    unfolding list_ex_iff by blast
  obtain s u where
    gen: "Generate s u (Inr (Some (ustr ''A great red mug''), example_meta)) \<in> set ?io"
    and sys: "s \<noteq> formatter_system_msg"
  proof (cases e)
    case (Retrieve q f x)
    with pe show ?thesis by simp
  next
    case (Generate s u x)
    with e pe that show ?thesis by auto
  qed
  have "list_ex (\<lambda>e. case e of
             Generate s u x \<Rightarrow>
               s = formatter_system_msg
               \<and> x = Inr (Some (ustr ''Here it is: A great red mug''), example_meta)
           | Retrieve q f x \<Rightarrow> False) ?io"
    by code_simp
  then obtain e2 where e2: "e2 \<in> set ?io"
    and pe2: "case e2 of
           Generate s u x \<Rightarrow>
             s = formatter_system_msg
             \<and> x = Inr (Some (ustr ''Here it is: A great red mug''), example_meta)
         | Retrieve q f x \<Rightarrow> False"
    unfolding list_ex_iff by blast
  obtain u2 where
    rep2: "Generate formatter_system_msg u2
             (Inr (Some (ustr ''Here it is: A great red mug''), example_meta)) \<in> set ?io"
  proof (cases e2)
    case (Retrieve q f x)
    with pe2 show ?thesis by simp
  next
    case (Generate s u x)
    with e2 pe2 that show ?thesis by auto
  qed
  have bad: "\<not> is_valid_format (Some (ustr ''A great red mug'')) MODE_HEADLINE" by code_simp
  have bad2: "\<not> is_valid_format (Some (ustr ''Here it is: A great red mug'')) MODE_HEADLINE"
    by code_simp
  have bad': "\<not> is_valid_format (Some (py_strip (or_empty (Some (ustr ''A great red mug'')))))
                  (detect_mode (py_strip example_headline_request))"
    unfolding m d by (rule bad)
  note once = repair_at_most_once [OF rep run gen sys bad']
  from once have same: "run_agent repair_settings example_env example_headline_request [] 0
                          = (?res, fst (snd example_repair_run))"
    by (rule conjunct1)
  from once [THEN conjunct2, THEN conjunct1] have three: "length ?io = 3"
    by auto
  from once [THEN conjunct2, THEN conjunct2] have one: "length (filter is_repair_call ?io) = 1"
    by (rule conjunct1)
  from once [THEN conjunct2, THEN conjunct2, THEN conjunct2] rep2 bad2
  have "status ?res = ustr ''ok'' \<and> error ?res = None
        \<and> response ?res = Some (ustr ''A great red mug'')
        \<and> last (steps ?res) = Step (ustr ''FinalResponseComposer'')
             (FinalResponseComposerData False MODE_HEADLINE False)"
    unfolding m d by blast
  with rep bad bad2 one three w2 same show ?thesis by simp
qed




end
